theory Spec2Isabelle
  imports Main "HOL-Library.Word"
begin

section \<open>Python values\<close>

text \<open>
  The store file, the replies of the address service and every result the operations of
  \<^verbatim>\<open>app.py\<close> return are JSON values, that is Python values built from \<^verbatim>\<open>None\<close>,
  \<^verbatim>\<open>bool\<close>, \<^verbatim>\<open>int\<close>, \<^verbatim>\<open>float\<close>, \<^verbatim>\<open>str\<close>, \<^verbatim>\<open>list\<close> and \<^verbatim>\<open>dict\<close> with string keys.
  A dict is the list of its items in insertion order (its keys are distinct). A float is
  its IEEE-754 bit pattern: the program only passes floats on, it never computes with them.
\<close>

datatype json =
    JNull
  | JBool bool
  | JInt int
  | JFloat "64 word"
  | JStr string
  | JList "json list"
  | JObj "(string \<times> json) list"

text \<open>
  The exceptions the program can meet, by the classes its \<^verbatim>\<open>except\<close> clauses tell apart.
  \<open>FileError\<close> stands for what \<^verbatim>\<open>open\<close> and \<^verbatim>\<open>json.load\<close> raise on a missing or
  malformed store file, \<open>RequestException\<close> for \<^verbatim>\<open>requests.exceptions.RequestException\<close>
  and its subclasses (\<^verbatim>\<open>HTTPError\<close> among them), \<open>APIError\<close> for
  \<^verbatim>\<open>gspread.exceptions.APIError\<close>, \<open>RequestValidationError\<close> for the rejection of a
  request body by the schema of the endpoint, \<open>OtherException\<close> for any other subclass of
  \<^verbatim>\<open>Exception\<close>. Each carries its message, \<open>KeyError\<close> the missing key.
\<close>

datatype exn =
    FileError string
  | AttributeError string
  | TypeError string
  | KeyError string
  | RequestException string
  | APIError string
  | RequestValidationError
  | OtherException string

definition repr_str :: "string \<Rightarrow> string" where
  \<comment> \<open>\<^verbatim>\<open>repr\<close> of a string without quotes or escapes in it: the string in single quotes\<close>
  "repr_str s = CHR 0x27 # s @ [CHR 0x27]"

fun str_exn :: "exn \<Rightarrow> string" where
  \<comment> \<open>\<^verbatim>\<open>str(e)\<close>: the message, and for a \<^verbatim>\<open>KeyError\<close> the \<^verbatim>\<open>repr\<close> of the key\<close>
  "str_exn (FileError m) = m"
| "str_exn (AttributeError m) = m"
| "str_exn (TypeError m) = m"
| "str_exn (KeyError k) = repr_str k"
| "str_exn (RequestException m) = m"
| "str_exn (APIError m) = m"
| "str_exn RequestValidationError = ''''"
| "str_exn (OtherException m) = m"

fun type_name :: "json \<Rightarrow> string" where
  "type_name JNull = ''NoneType''"
| "type_name (JBool _) = ''bool''"
| "type_name (JInt _) = ''int''"
| "type_name (JFloat _) = ''float''"
| "type_name (JStr _) = ''str''"
| "type_name (JList _) = ''list''"
| "type_name (JObj _) = ''dict''"

text \<open>
  \<^verbatim>\<open>d[k]\<close> for a string \<open>k\<close>: the value of a dict at a key it has, \<^verbatim>\<open>KeyError\<close> at a key it
  has not, \<^verbatim>\<open>TypeError\<close> on every value that is not a dict (the message texts are
  CPython's; nothing below depends on them).
\<close>

fun subscript :: "json \<Rightarrow> string \<Rightarrow> exn + json" where
  "subscript (JObj kvs) k = (case map_of kvs k of None \<Rightarrow> Inl (KeyError k) | Some v \<Rightarrow> Inr v)"
| "subscript (JList xs) k = Inl (TypeError ''list indices must be integers or slices, not str'')"
| "subscript (JStr s) k = Inl (TypeError (''string indices must be integers, not '' @ repr_str ''str''))"
| "subscript v k = Inl (TypeError (repr_str (type_name v) @ '' object is not subscriptable''))"

fun dict_keys :: "json \<Rightarrow> exn + string list" where
  \<comment> \<open>\<^verbatim>\<open>d.keys()\<close>: only a dict has the method\<close>
  "dict_keys (JObj kvs) = Inr (map fst kvs)"
| "dict_keys v = Inl (AttributeError (repr_str (type_name v) @ '' object has no attribute '' @ repr_str ''keys''))"

fun dict_set :: "(string \<times> json) list \<Rightarrow> string \<Rightarrow> json \<Rightarrow> (string \<times> json) list" where
  \<comment> \<open>a key the dict has keeps its place and takes the new value; a new key goes last\<close>
  "dict_set [] k v = [(k, v)]"
| "dict_set ((k', v') # kvs) k v = (if k' = k then (k, v) # kvs else (k', v') # dict_set kvs k v)"

fun setitem :: "json \<Rightarrow> string \<Rightarrow> json \<Rightarrow> exn + json" where
  \<comment> \<open>\<^verbatim>\<open>d[k] = v\<close>\<close>
  "setitem (JObj kvs) k v = Inr (JObj (dict_set kvs k v))"
| "setitem (JList xs) k v = Inl (TypeError ''list indices must be integers or slices, not str'')"
| "setitem d k v = Inl (TypeError (repr_str (type_name d) @ '' object does not support item assignment''))"

fun truthy :: "json \<Rightarrow> bool" where
  \<comment> \<open>the truth value Python's \<^verbatim>\<open>if\<close> takes of a value\<close>
  "truthy JNull = False"
| "truthy (JBool b) = b"
| "truthy (JInt n) = (n \<noteq> 0)"
| "truthy (JFloat w) = (w \<noteq> 0 \<and> w \<noteq> 0x8000000000000000)"
| "truthy (JStr s) = (s \<noteq> [])"
| "truthy (JList xs) = (xs \<noteq> [])"
| "truthy (JObj kvs) = (kvs \<noteq> [])"

section \<open>The world outside the process\<close>

text \<open>
  What the operations change is the store file \<^verbatim>\<open>DB_FILE\<close> and the spreadsheet. The file
  either cannot be loaded (\<^verbatim>\<open>open\<close> or \<^verbatim>\<open>json.load\<close> raises) or holds a JSON value. Of
  the spreadsheet the model keeps every call of \<^verbatim>\<open>append_row\<close>, oldest first, with the
  name of the worksheet and the row: a call is recorded whether it then succeeds or raises.
\<close>

datatype file_state = Unreadable exn | Content json

record world =
  db_file :: file_state
  append_calls :: "(string \<times> json list) list"

text \<open>
  An operation takes the world and returns the exception it raises or the value it
  returns, with the world it leaves.
\<close>

type_synonym 'a io = "world \<Rightarrow> (exn + 'a) \<times> world"

definition pure_io :: "exn + 'a \<Rightarrow> 'a io" where
  \<comment> \<open>a step that leaves the world alone\<close>
  "pure_io r w = (r, w)"

definition io_bind :: "'a io \<Rightarrow> ('a \<Rightarrow> 'b io) \<Rightarrow> 'b io" where
  \<comment> \<open>one statement after another: an exception ends the sequence\<close>
  "io_bind m f w = (case m w of (Inl e, w') \<Rightarrow> (Inl e, w') | (Inr v, w') \<Rightarrow> f v w')"

definition and_then :: "exn + 'a \<Rightarrow> ('a \<Rightarrow> exn + 'b) \<Rightarrow> exn + 'b" where
  \<comment> \<open>the same for steps that do not touch the world\<close>
  "and_then m f = (case m of Inl e \<Rightarrow> Inl e | Inr v \<Rightarrow> f v)"

subsection \<open>Record Store\<close>

definition read_db :: "json io" where
  "read_db w = (case db_file w of Unreadable e \<Rightarrow> (Inl e, w) | Content db \<Rightarrow> (Inr db, w))"

definition write_db :: "json \<Rightarrow> unit io" where
  \<comment> \<open>\<^verbatim>\<open>json.dump(db, file)\<close> on the file opened for writing; the file is taken to be
     writable, and what is dumped is what a later load returns\<close>
  "write_db db w = (Inr (), w\<lparr>db_file := Content db\<rparr>)"

section \<open>Registration Checker\<close>

definition check_registration :: "string \<Rightarrow> json io" where
  "check_registration rm =
     io_bind read_db (\<lambda>db.
     pure_io (and_then (dict_keys db) (\<lambda>ks.
       if rm \<notin> set ks then
         Inr (JObj [(''error'', JBool True), (''status'', JStr ''not_found''),
                    (''detail'', JStr (''RM '' @ rm @ '' not found in the database.''))])
       else and_then (subscript db rm) (\<lambda>v.
         if v = JNull then
           Inr (JObj [(''error'', JBool True), (''status'', JStr ''unregistered_address''),
                      (''detail'', JStr (''RM '' @ rm @ '' found in the database, but its address is None.''))])
         else and_then (subscript db rm) (\<lambda>data.
           Inr (JObj [(''error'', JBool False), (''status'', JStr ''registered''),
                      (''detail'', JStr (''RM '' @ rm @ '' found in the database.'')),
                      (''data'', data)]))))))"

section \<open>Address Resolver\<close>

text \<open>
  What \<^verbatim>\<open>requests.get(url)\<close> brings back: no response at all (the call raises a
  \<^verbatim>\<open>RequestException\<close> with the given text), or a response with its status code, the
  text of the \<^verbatim>\<open>HTTPError\<close> that \<^verbatim>\<open>raise_for_status\<close> builds for it, and its body as
  \<^verbatim>\<open>response.json()\<close> decodes it. Only bodies that are JSON are covered.
\<close>

datatype http_reply = NoResponse string | Response nat string json

text \<open>
  The services the process calls. \<open>requests_get\<close> answers a URL; \<open>worksheet_failure\<close>
  is the exception, if any, that \<^verbatim>\<open>client.open_by_key(SHEET_ID).worksheet(name)\<close> raises;
  \<open>append_failure\<close> the exception, if any, that \<^verbatim>\<open>append_row\<close> raises on a worksheet
  and a row; \<open>now_text\<close> the current time in the zone America/Sao_Paulo, formatted by
  \<^verbatim>\<open>strftime("%Y-%m-%d %H:%M:%S")\<close>.
\<close>

record env =
  requests_get :: "string \<Rightarrow> http_reply"
  worksheet_failure :: "string \<Rightarrow> exn option"
  append_failure :: "string \<Rightarrow> json list \<Rightarrow> exn option"
  now_text :: string

definition raise_for_status :: "nat \<Rightarrow> string \<Rightarrow> exn + unit" where
  \<comment> \<open>an \<^verbatim>\<open>HTTPError\<close> for a client or server error status\<close>
  "raise_for_status code msg =
     (if 400 \<le> code \<and> code < 600 then Inl (RequestException msg) else Inr ())"

definition viacep_url :: "string \<Rightarrow> string" where
  \<comment> \<open>the URL \<^verbatim>\<open>get_address\<close> asks for a postal code\<close>
  "viacep_url cep = ''https://viacep.com.br/ws/'' @ cep @ ''/json''"

definition get_address_try :: "env \<Rightarrow> string \<Rightarrow> exn + json" where
  \<comment> \<open>the body of the \<^verbatim>\<open>try\<close> statement of \<^verbatim>\<open>get_address\<close>\<close>
  "get_address_try e cep =
     (case requests_get e (viacep_url cep) of
        NoResponse msg \<Rightarrow> Inl (RequestException msg)
      | Response code msg data \<Rightarrow>
          and_then (raise_for_status code msg) (\<lambda>_.
          and_then (dict_keys data) (\<lambda>ks.
            if ''erro'' \<in> set ks then
              Inr (JObj [(''error'', JBool True), (''detail'', JStr ''CEP not found.'')])
            else
              and_then (subscript data ''logradouro'') (\<lambda>rua.
              and_then (subscript data ''bairro'') (\<lambda>bairro.
              and_then (subscript data ''localidade'') (\<lambda>cidade.
              and_then (subscript data ''uf'') (\<lambda>estado.
                Inr (JObj [(''error'', JBool False),
                           (''data'', JObj [(''cep'', JStr cep), (''rua'', rua), (''bairro'', bairro),
                                           (''cidade'', cidade), (''estado'', estado)])]))))))))"

definition get_address :: "env \<Rightarrow> string \<Rightarrow> exn + json" where
  \<comment> \<open>the \<^verbatim>\<open>except\<close> clause catches \<^verbatim>\<open>RequestException\<close> and nothing else\<close>
  "get_address e cep =
     (case get_address_try e cep of
        Inl (RequestException msg) \<Rightarrow> Inr (JObj [(''error'', JBool True), (''detail'', JStr msg)])
      | Inl err \<Rightarrow> Inl err
      | Inr r \<Rightarrow> Inr r)"

section \<open>Save Address\<close>

record PayloadGetAddress =
  cep :: string

record PayloadSaveAddress =
  rm :: string
  cep :: string
  numero :: int
  nome :: string

record PayloadCheckRegistration =
  rm :: string

record PayloadMakeOrderTech =
  rm :: string
  produto :: string
  marca :: string
  valor :: "64 word"

record PayloadMakeOrderPoke =
  rm :: string
  tamanho :: string
  base :: string
  topping :: string
  crunch :: string
  proteina :: string
  molho :: string
  valor :: "64 word"

definition merged_address :: "PayloadSaveAddress \<Rightarrow> json \<Rightarrow> exn + json" where
  \<comment> \<open>the dict \<^verbatim>\<open>address\<close> that \<^verbatim>\<open>save_address\<close> builds from its payload and the
     resolver's result\<close>
  "merged_address payload address_details =
     and_then (and_then (subscript address_details ''data'') (\<lambda>d. subscript d ''rua'')) (\<lambda>rua.
     and_then (and_then (subscript address_details ''data'') (\<lambda>d. subscript d ''bairro'')) (\<lambda>bairro.
     and_then (and_then (subscript address_details ''data'') (\<lambda>d. subscript d ''cidade'')) (\<lambda>cidade.
     and_then (and_then (subscript address_details ''data'') (\<lambda>d. subscript d ''estado'')) (\<lambda>estado.
       Inr (JObj [(''cep'', JStr (PayloadSaveAddress.cep payload)), (''rua'', rua),
                  (''bairro'', bairro), (''cidade'', cidade), (''estado'', estado),
                  (''numero'', JInt (numero payload)), (''nome'', JStr (nome payload))])))))"

definition save_address :: "env \<Rightarrow> PayloadSaveAddress \<Rightarrow> json io" where
  "save_address e payload =
     io_bind read_db (\<lambda>db.
     io_bind (check_registration (PayloadSaveAddress.rm payload)) (\<lambda>check_result.
     io_bind (pure_io (subscript check_result ''status'')) (\<lambda>status.
       if status = JStr ''not_found'' then pure_io (Inr check_result)
       else
         io_bind (pure_io (get_address e (PayloadSaveAddress.cep payload))) (\<lambda>address_details.
         io_bind (pure_io (subscript address_details ''error'')) (\<lambda>failed.
           if truthy failed then pure_io (Inr address_details)
           else
             io_bind (pure_io (merged_address payload address_details)) (\<lambda>address.
             io_bind (pure_io (setitem db (PayloadSaveAddress.rm payload) address)) (\<lambda>db'.
             io_bind (write_db db') (\<lambda>_.
               pure_io (Inr (JObj [(''error'', JBool False), (''status'', JStr ''updated''),
                  (''data'', JStr (''Address for RM '' @ PayloadSaveAddress.rm payload
                                     @ '' updated successfully.''))]))))))))))"

section \<open>Order Recorder\<close>

definition tech_store_sheet_name :: string where
  "tech_store_sheet_name = ''Tech Store''"

definition poke_store_sheet_name :: string where
  "poke_store_sheet_name = ''Poke Store''"

definition open_worksheet :: "env \<Rightarrow> string \<Rightarrow> string io" where
  \<comment> \<open>\<^verbatim>\<open>client.open_by_key(SHEET_ID).worksheet(sheet_name)\<close>; the worksheet is known by its name\<close>
  "open_worksheet e sheet_name w =
     (case worksheet_failure e sheet_name of
        Some err \<Rightarrow> (Inl err, w)
      | None \<Rightarrow> (Inr sheet_name, w))"

definition append_row :: "env \<Rightarrow> string \<Rightarrow> json list \<Rightarrow> unit io" where
  \<comment> \<open>\<^verbatim>\<open>sheet.append_row(order)\<close>: the call is recorded, then it succeeds or raises\<close>
  "append_row e sheet order w =
     (let w' = w\<lparr>append_calls := append_calls w @ [(sheet, order)]\<rparr>
      in case append_failure e sheet order of
           Some err \<Rightarrow> (Inl err, w')
         | None \<Rightarrow> (Inr (), w'))"

definition order_tech :: "env \<Rightarrow> PayloadMakeOrderTech \<Rightarrow> json \<Rightarrow> exn + json list" where
  \<comment> \<open>the list \<^verbatim>\<open>order\<close> of \<^verbatim>\<open>make_order_tech\<close>, its elements evaluated from left to right\<close>
  "order_tech e payload data =
     and_then (subscript data ''cep'') (\<lambda>d_cep.
     and_then (subscript data ''rua'') (\<lambda>d_rua.
     and_then (subscript data ''numero'') (\<lambda>d_numero.
     and_then (subscript data ''bairro'') (\<lambda>d_bairro.
     and_then (subscript data ''cidade'') (\<lambda>d_cidade.
     and_then (subscript data ''estado'') (\<lambda>d_estado.
     and_then (subscript data ''nome'') (\<lambda>d_nome.
       Inr [JStr (now_text e), JStr (PayloadMakeOrderTech.rm payload), JStr (produto payload),
            JStr (marca payload), JFloat (PayloadMakeOrderTech.valor payload),
            d_cep, d_rua, d_numero, d_bairro, d_cidade, d_estado, d_nome])))))))"

definition order_poke :: "env \<Rightarrow> PayloadMakeOrderPoke \<Rightarrow> json \<Rightarrow> exn + json list" where
  \<comment> \<open>the list \<^verbatim>\<open>order\<close> of \<^verbatim>\<open>make_order_poke\<close>\<close>
  "order_poke e payload data =
     and_then (subscript data ''cep'') (\<lambda>d_cep.
     and_then (subscript data ''rua'') (\<lambda>d_rua.
     and_then (subscript data ''numero'') (\<lambda>d_numero.
     and_then (subscript data ''bairro'') (\<lambda>d_bairro.
     and_then (subscript data ''cidade'') (\<lambda>d_cidade.
     and_then (subscript data ''estado'') (\<lambda>d_estado.
     and_then (subscript data ''nome'') (\<lambda>d_nome.
       Inr [JStr (now_text e), JStr (PayloadMakeOrderPoke.rm payload), JStr (tamanho payload),
            JStr (base payload), JStr (topping payload), JStr (crunch payload),
            JStr (proteina payload), JStr (molho payload),
            JFloat (PayloadMakeOrderPoke.valor payload),
            d_cep, d_rua, d_numero, d_bairro, d_cidade, d_estado, d_nome])))))))"

definition order_made :: "string \<Rightarrow> json" where
  "order_made r =
     JObj [(''error'', JBool False), (''status'', JStr ''order_made''),
           (''detail'', JStr (''Order for RM '' @ r @ '' made successfully.''))]"

definition make_order_tech_try :: "env \<Rightarrow> PayloadMakeOrderTech \<Rightarrow> string \<Rightarrow> json \<Rightarrow> json io" where
  \<comment> \<open>the body of the \<^verbatim>\<open>try\<close> statement of \<^verbatim>\<open>make_order_tech\<close>\<close>
  "make_order_tech_try e payload sheet_name data =
     io_bind (open_worksheet e sheet_name) (\<lambda>sheet.
     io_bind (pure_io (order_tech e payload data)) (\<lambda>order.
     io_bind (append_row e sheet order) (\<lambda>_.
       pure_io (Inr (order_made (PayloadMakeOrderTech.rm payload))))))"

definition make_order_poke_try :: "env \<Rightarrow> PayloadMakeOrderPoke \<Rightarrow> string \<Rightarrow> json \<Rightarrow> json io" where
  \<comment> \<open>the body of the \<^verbatim>\<open>try\<close> statement of \<^verbatim>\<open>make_order_poke\<close>\<close>
  "make_order_poke_try e payload sheet_name data =
     io_bind (open_worksheet e sheet_name) (\<lambda>sheet.
     io_bind (pure_io (order_poke e payload data)) (\<lambda>order.
     io_bind (append_row e sheet order) (\<lambda>_.
       pure_io (Inr (order_made (PayloadMakeOrderPoke.rm payload))))))"

fun order_failure :: "exn \<Rightarrow> json" where
  \<comment> \<open>the three \<^verbatim>\<open>except\<close> clauses, in their order; both order functions have the same three\<close>
  "order_failure (APIError m) =
     JObj [(''error'', JBool True), (''status'', JStr ''api_error''),
           (''detail'', JStr (''Error occurred while accessing Google Sheets API: '' @ str_exn (APIError m)))]"
| "order_failure (KeyError k) =
     JObj [(''error'', JBool True), (''status'', JStr ''missing_data''),
           (''detail'', JStr (''Missing data in address details: '' @ str_exn (KeyError k)))]"
| "order_failure err =
     JObj [(''error'', JBool True), (''status'', JStr ''unknown_error''),
           (''detail'', JStr (''An unknown error occurred: '' @ str_exn err))]"

definition order_except :: "json io \<Rightarrow> json io" where
  \<comment> \<open>a \<^verbatim>\<open>try\<close> body under the three clauses: whatever it raises is returned as data\<close>
  "order_except body w =
     (case body w of
        (Inl err, w') \<Rightarrow> (Inr (order_failure err), w')
      | (Inr r, w') \<Rightarrow> (Inr r, w'))"

definition make_order_tech :: "env \<Rightarrow> PayloadMakeOrderTech \<Rightarrow> string \<Rightarrow> json io" where
  "make_order_tech e payload sheet_name =
     io_bind (check_registration (PayloadMakeOrderTech.rm payload)) (\<lambda>check_result.
     io_bind (pure_io (subscript check_result ''error'')) (\<lambda>failed.
       if truthy failed then pure_io (Inr check_result)
       else
         io_bind (pure_io (subscript check_result ''data'')) (\<lambda>data.
           order_except (make_order_tech_try e payload sheet_name data))))"

definition make_order_poke :: "env \<Rightarrow> PayloadMakeOrderPoke \<Rightarrow> string \<Rightarrow> json io" where
  "make_order_poke e payload sheet_name =
     io_bind (check_registration (PayloadMakeOrderPoke.rm payload)) (\<lambda>check_result.
     io_bind (pure_io (subscript check_result ''error'')) (\<lambda>failed.
       if truthy failed then pure_io (Inr check_result)
       else
         io_bind (pure_io (subscript check_result ''data'')) (\<lambda>data.
           order_except (make_order_poke_try e payload sheet_name data))))"

section \<open>Request Dispatcher\<close>

text \<open>
  The endpoint takes an instance of one of the five input models. Each model fixes its
  \<^verbatim>\<open>action\<close> by a \<^verbatim>\<open>Literal\<close> type, so the action of an instance is the one of its class.
\<close>

datatype input_data =
    InputGetAddress PayloadGetAddress
  | InputSaveAddress PayloadSaveAddress
  | InputCheckRegistration PayloadCheckRegistration
  | InputMakeOrderTech PayloadMakeOrderTech
  | InputMakeOrderPoke PayloadMakeOrderPoke

fun action :: "input_data \<Rightarrow> string" where
  "action (InputGetAddress _) = ''get_address''"
| "action (InputSaveAddress _) = ''save_address''"
| "action (InputCheckRegistration _) = ''check_registration''"
| "action (InputMakeOrderTech _) = ''make_order_tech''"
| "action (InputMakeOrderPoke _) = ''make_order_poke''"

definition input_model_mapping :: "(string \<times> string) list" where
  \<comment> \<open>action to the name of its input model\<close>
  "input_model_mapping =
     [(''get_address'', ''InputGetAddress''),
      (''save_address'', ''InputSaveAddress''),
      (''check_registration'', ''InputCheckRegistration''),
      (''make_order_tech'', ''InputMakeOrderTech''),
      (''make_order_poke'', ''InputMakeOrderPoke'')]"

definition response :: "string \<Rightarrow> json \<Rightarrow> json" where
  "response a result = JObj [(''action'', JStr a), (''response_payload'', result)]"

definition invalid_action :: json where
  "invalid_action = JObj [(''error'', JBool True), (''detail'', JStr ''Invalid action'')]"

definition respond :: "string \<Rightarrow> json io \<Rightarrow> json io" where
  \<comment> \<open>\<^verbatim>\<open>result = ...; return {"action": action, "response_payload": result}\<close>\<close>
  "respond a operation = io_bind operation (\<lambda>result. pure_io (Inr (response a result)))"

definition no_attribute :: "json io" where
  \<comment> \<open>an attribute the instance does not have\<close>
  "no_attribute = pure_io (Inl (AttributeError ''object has no such attribute''))"

definition api_endpoint :: "env \<Rightarrow> input_data \<Rightarrow> json io" where
  "api_endpoint e input_data =
     (let a = action input_data in
      if a \<notin> fst ` set input_model_mapping then pure_io (Inr (response a invalid_action))
      else if a = ''get_address'' then
        (case input_data of
           InputGetAddress p \<Rightarrow> respond a (pure_io (get_address e (PayloadGetAddress.cep p)))
         | _ \<Rightarrow> no_attribute)
      else if a = ''save_address'' then
        (case input_data of
           InputSaveAddress p \<Rightarrow> respond a (save_address e p)
         | _ \<Rightarrow> no_attribute)
      else if a = ''check_registration'' then
        (case input_data of
           InputCheckRegistration p \<Rightarrow> respond a (check_registration (PayloadCheckRegistration.rm p))
         | _ \<Rightarrow> no_attribute)
      else if a = ''make_order_tech'' then
        (case input_data of
           InputMakeOrderTech p \<Rightarrow> respond a (make_order_tech e p tech_store_sheet_name)
         | _ \<Rightarrow> no_attribute)
      else if a = ''make_order_poke'' then
        (case input_data of
           InputMakeOrderPoke p \<Rightarrow> respond a (make_order_poke e p poke_store_sheet_name)
         | _ \<Rightarrow> no_attribute)
      else pure_io (Inr (response a invalid_action)))"

subsection \<open>The schema in front of the dispatcher\<close>

text \<open>
  The framework validates the JSON body of a request against the union of the five input
  models and calls \<^verbatim>\<open>api_endpoint\<close> only with an instance it could build. The primitive
  checks are the validation library's and are taken as they come: whether a string
  matches a regular expression, which JSON values pass for an \<^verbatim>\<open>int\<close> or a \<^verbatim>\<open>float\<close>
  and as which number, and which member of the union is taken when several accept a body.
\<close>

record pydantic =
  pattern_match :: "string \<Rightarrow> string \<Rightarrow> bool"
  int_validator :: "json \<Rightarrow> int option"
  float_validator :: "json \<Rightarrow> 64 word option"
  union_choice :: "input_data list \<Rightarrow> input_data"

definition CEP :: string where
  \<comment> \<open>the pattern \<^verbatim>\<open>^\d{8}$\<close>\<close>
  "CEP = ''^'' @ [CHR 0x5C] @ ''d{8}$''"

definition RM :: string where
  \<comment> \<open>the pattern \<^verbatim>\<open>^\d{5,6}$\<close>\<close>
  "RM = ''^'' @ [CHR 0x5C] @ ''d{5,6}$''"

definition action_field :: "string \<Rightarrow> (string \<times> json) list \<Rightarrow> bool" where
  \<comment> \<open>\<^verbatim>\<open>action: Literal[lit] = lit\<close>: a body without the field takes the default, a body
     with the field must give the literal itself\<close>
  "action_field lit kvs = (case map_of kvs ''action'' of None \<Rightarrow> True | Some v \<Rightarrow> v = JStr lit)"

definition str_field :: "(string \<times> json) list \<Rightarrow> string \<Rightarrow> string option" where
  \<comment> \<open>a required field of type \<^verbatim>\<open>str\<close>\<close>
  "str_field kvs k = (case map_of kvs k of Some (JStr s) \<Rightarrow> Some s | _ \<Rightarrow> None)"

definition pattern_field :: "pydantic \<Rightarrow> string \<Rightarrow> (string \<times> json) list \<Rightarrow> string \<Rightarrow> string option" where
  \<comment> \<open>a required string field constrained by a pattern\<close>
  "pattern_field py pat kvs k =
     (case str_field kvs k of
        Some s \<Rightarrow> if pattern_match py pat s then Some s else None
      | None \<Rightarrow> None)"

definition int_field :: "pydantic \<Rightarrow> (string \<times> json) list \<Rightarrow> string \<Rightarrow> int option" where
  "int_field py kvs k = (case map_of kvs k of Some v \<Rightarrow> int_validator py v | None \<Rightarrow> None)"

definition float_field :: "pydantic \<Rightarrow> (string \<times> json) list \<Rightarrow> string \<Rightarrow> 64 word option" where
  "float_field py kvs k = (case map_of kvs k of Some v \<Rightarrow> float_validator py v | None \<Rightarrow> None)"

definition validate_InputGetAddress :: "pydantic \<Rightarrow> (string \<times> json) list \<Rightarrow> input_data option" where
  "validate_InputGetAddress py kvs =
     (if action_field ''get_address'' kvs then
        Option.bind (pattern_field py CEP kvs ''cep'') (\<lambda>c.
        Some (InputGetAddress \<lparr>PayloadGetAddress.cep = c\<rparr>))
      else None)"

definition validate_InputSaveAddress :: "pydantic \<Rightarrow> (string \<times> json) list \<Rightarrow> input_data option" where
  "validate_InputSaveAddress py kvs =
     (if action_field ''save_address'' kvs then
        Option.bind (pattern_field py RM kvs ''rm'') (\<lambda>r.
        Option.bind (pattern_field py CEP kvs ''cep'') (\<lambda>c.
        Option.bind (int_field py kvs ''numero'') (\<lambda>n.
        Option.bind (str_field kvs ''nome'') (\<lambda>m.
        Some (InputSaveAddress \<lparr>PayloadSaveAddress.rm = r, PayloadSaveAddress.cep = c,
                                 numero = n, nome = m\<rparr>)))))
      else None)"

definition validate_InputCheckRegistration :: "pydantic \<Rightarrow> (string \<times> json) list \<Rightarrow> input_data option" where
  "validate_InputCheckRegistration py kvs =
     (if action_field ''check_registration'' kvs then
        Option.bind (pattern_field py RM kvs ''rm'') (\<lambda>r.
        Some (InputCheckRegistration \<lparr>PayloadCheckRegistration.rm = r\<rparr>))
      else None)"

definition validate_InputMakeOrderTech :: "pydantic \<Rightarrow> (string \<times> json) list \<Rightarrow> input_data option" where
  "validate_InputMakeOrderTech py kvs =
     (if action_field ''make_order_tech'' kvs then
        Option.bind (pattern_field py RM kvs ''rm'') (\<lambda>r.
        Option.bind (str_field kvs ''produto'') (\<lambda>pr.
        Option.bind (str_field kvs ''marca'') (\<lambda>ma.
        Option.bind (float_field py kvs ''valor'') (\<lambda>va.
        Some (InputMakeOrderTech \<lparr>PayloadMakeOrderTech.rm = r, produto = pr, marca = ma,
                                   PayloadMakeOrderTech.valor = va\<rparr>)))))
      else None)"

definition validate_InputMakeOrderPoke :: "pydantic \<Rightarrow> (string \<times> json) list \<Rightarrow> input_data option" where
  "validate_InputMakeOrderPoke py kvs =
     (if action_field ''make_order_poke'' kvs then
        Option.bind (pattern_field py RM kvs ''rm'') (\<lambda>r.
        Option.bind (str_field kvs ''tamanho'') (\<lambda>ta.
        Option.bind (str_field kvs ''base'') (\<lambda>ba.
        Option.bind (str_field kvs ''topping'') (\<lambda>tp.
        Option.bind (str_field kvs ''crunch'') (\<lambda>cr.
        Option.bind (str_field kvs ''proteina'') (\<lambda>pr.
        Option.bind (str_field kvs ''molho'') (\<lambda>mo.
        Option.bind (float_field py kvs ''valor'') (\<lambda>va.
        Some (InputMakeOrderPoke \<lparr>PayloadMakeOrderPoke.rm = r, tamanho = ta, base = ba,
                                   topping = tp, crunch = cr, proteina = pr, molho = mo,
                                   PayloadMakeOrderPoke.valor = va\<rparr>)))))))))
      else None)"

definition validate_input_data :: "pydantic \<Rightarrow> json \<Rightarrow> input_data list" where
  \<comment> \<open>the members of the union that accept a body, in the order of the annotation\<close>
  "validate_input_data py body =
     (case body of
        JObj kvs \<Rightarrow>
          List.map_filter (\<lambda>validate. validate py kvs)
            [validate_InputGetAddress, validate_InputSaveAddress, validate_InputCheckRegistration,
             validate_InputMakeOrderTech, validate_InputMakeOrderPoke]
      | _ \<Rightarrow> [])"

definition post_root :: "pydantic \<Rightarrow> env \<Rightarrow> json \<Rightarrow> json io" where
  \<comment> \<open>\<^verbatim>\<open>POST /\<close>: a body no member accepts is refused before \<^verbatim>\<open>api_endpoint\<close> is called\<close>
  "post_root py e body =
     (case validate_input_data py body of
        [] \<Rightarrow> pure_io (Inl RequestValidationError)
      | members \<Rightarrow> api_endpoint e (union_choice py members))"

section \<open>Example inputs\<close>

text \<open>
  A store with an identifier that has no address yet, one with a full address and one whose
  record lacks fields; services that all answer; and one behaviour of the validation
  library. The examples below are evaluated on them.
\<close>

definition example_record :: json where
  "example_record =
     JObj [(''cep'', JStr ''01001000''), (''rua'', JStr ''Praca da Se''), (''bairro'', JStr ''Se''),
           (''cidade'', JStr ''Sao Paulo''), (''estado'', JStr ''SP''),
           (''numero'', JInt 100), (''nome'', JStr ''Ana'')]"

definition example_store :: "(string \<times> json) list" where
  "example_store = [(''12345'', JNull), (''123456'', example_record), (''54321'', JObj [(''nome'', JStr ''Rui'')])]"

definition example_world :: world where
  "example_world = \<lparr>db_file = Content (JObj example_store), append_calls = []\<rparr>"

definition example_env :: env where
  "example_env =
     \<lparr>requests_get = (\<lambda>url.
          if url = viacep_url ''01001000'' then
            Response 200 ''''
              (JObj [(''cep'', JStr ''01001-000''), (''logradouro'', JStr ''Praca da Se''),
                     (''bairro'', JStr ''Se''), (''localidade'', JStr ''Sao Paulo''),
                     (''uf'', JStr ''SP'')])
          else Response 200 '''' (JObj [(''erro'', JBool True)])),
      worksheet_failure = (\<lambda>name. None),
      append_failure = (\<lambda>name row. None),
      now_text = ''2024-05-06 12:30:00''\<rparr>"

definition example_pydantic :: pydantic where
  "example_pydantic =
     \<lparr>pattern_match = (\<lambda>pat s.
          list_all (\<lambda>c. c \<in> set ''0123456789'') s
          \<and> (if pat = CEP then length s = 8 else 5 \<le> length s \<and> length s \<le> 6)),
      int_validator = (\<lambda>v. case v of JInt n \<Rightarrow> Some n | _ \<Rightarrow> None),
      float_validator = (\<lambda>v. case v of JFloat x \<Rightarrow> Some x | _ \<Rightarrow> None),
      union_choice = hd\<rparr>"

section \<open>Properties\<close>

subsection \<open>The examples\<close>

lemma example_store_file: "db_file example_world = Content (JObj example_store)"
  by (simp add: example_world_def)

lemma example_resolved:
  "get_address example_env ''01001000'' =
     Inr (JObj [(''error'', JBool False),
                (''data'', JObj [(''cep'', JStr ''01001000''), (''rua'', JStr ''Praca da Se''),
                                (''bairro'', JStr ''Se''), (''cidade'', JStr ''Sao Paulo''),
                                (''estado'', JStr ''SP'')])])"
  by (simp add: get_address_def get_address_try_def example_env_def raise_for_status_def and_then_def)

subsection \<open>Dicts\<close>

lemma map_of_dict_set: "map_of (dict_set kvs k v) k' = (if k' = k then Some v else map_of kvs k')"
  by (induction kvs) auto

lemma keys_dict_set:
  "map fst (dict_set kvs k v) = (if k \<in> fst ` set kvs then map fst kvs else map fst kvs @ [k])"
  by (induction kvs) (auto simp: rev_image_eqI)

subsection \<open>Registration Checker\<close>

lemma check_registration_dict:
  assumes "db_file w = Content (JObj kvs)"
  shows "check_registration r w =
     (Inr (case map_of kvs r of
            None \<Rightarrow>
              JObj [(''error'', JBool True), (''status'', JStr ''not_found''),
                    (''detail'', JStr (''RM '' @ r @ '' not found in the database.''))]
          | Some v \<Rightarrow>
              if v = JNull then
                JObj [(''error'', JBool True), (''status'', JStr ''unregistered_address''),
                      (''detail'', JStr (''RM '' @ r @ '' found in the database, but its address is None.''))]
              else
                JObj [(''error'', JBool False), (''status'', JStr ''registered''),
                      (''detail'', JStr (''RM '' @ r @ '' found in the database.'')),
                      (''data'', v)]), w)"
proof (cases "map_of kvs r")
  case None
  then have "r \<notin> fst ` set kvs" by (simp add: map_of_eq_None_iff)
  with assms None show ?thesis
    by (simp add: check_registration_def io_bind_def pure_io_def read_db_def and_then_def)
next
  case (Some v)
  then have "r \<in> fst ` set kvs" by (metis map_of_eq_None_iff option.distinct(1))
  with assms Some show ?thesis
    by (simp add: check_registration_def io_bind_def pure_io_def read_db_def and_then_def)
qed

text \<open>
  Claim C1. On a store that holds a dict, \<^verbatim>\<open>check_registration\<close> returns one of three
  results, fixed by the store: the error with status not_found for an identifier that is
  not a key, the error with status unregistered_address for a key mapped to null, and the
  non-error result with status registered that carries exactly the stored record for a key
  mapped to a record. The world it leaves is the world it was given.
\<close>

theorem check_registration_three_results:
  assumes "db_file w = Content (JObj kvs)"
  shows "(r \<notin> fst ` set kvs \<longrightarrow>
            check_registration r w =
              (Inr (JObj [(''error'', JBool True), (''status'', JStr ''not_found''),
                          (''detail'', JStr (''RM '' @ r @ '' not found in the database.''))]), w))
       \<and> (map_of kvs r = Some JNull \<longrightarrow>
            check_registration r w =
              (Inr (JObj [(''error'', JBool True), (''status'', JStr ''unregistered_address''),
                          (''detail'', JStr (''RM '' @ r @ '' found in the database, but its address is None.''))]), w))
       \<and> (\<forall>record. map_of kvs r = Some record \<and> record \<noteq> JNull \<longrightarrow>
            check_registration r w =
              (Inr (JObj [(''error'', JBool False), (''status'', JStr ''registered''),
                          (''detail'', JStr (''RM '' @ r @ '' found in the database.'')),
                          (''data'', record)]), w))"
  using check_registration_dict [OF assms, of r]
  by (auto simp: map_of_eq_None_iff [symmetric])

theorem check_registration_three_results_witness:
  "db_file example_world = Content (JObj example_store)
 \<and> ''99999'' \<notin> fst ` set example_store
 \<and> check_registration ''99999'' example_world =
       (Inr (JObj [(''error'', JBool True), (''status'', JStr ''not_found''),
                   (''detail'', JStr ''RM 99999 not found in the database.'')]), example_world)
 \<and> map_of example_store ''12345'' = Some JNull
 \<and> check_registration ''12345'' example_world =
       (Inr (JObj [(''error'', JBool True), (''status'', JStr ''unregistered_address''),
                   (''detail'', JStr ''RM 12345 found in the database, but its address is None.'')]),
        example_world)
 \<and> map_of example_store ''123456'' = Some example_record \<and> example_record \<noteq> JNull
 \<and> check_registration ''123456'' example_world =
       (Inr (JObj [(''error'', JBool False), (''status'', JStr ''registered''),
                   (''detail'', JStr ''RM 123456 found in the database.''),
                   (''data'', example_record)]), example_world)"
proof -
  have absent: "''99999'' \<notin> fst ` set example_store"
    and null: "map_of example_store ''12345'' = Some JNull"
    and full: "map_of example_store ''123456'' = Some example_record"
    and nonnull: "example_record \<noteq> JNull"
    by (simp_all add: example_store_def example_record_def)
  from check_registration_three_results [OF example_store_file, of "''99999''"]
    check_registration_three_results [OF example_store_file, of "''12345''"]
    check_registration_three_results [OF example_store_file, of "''123456''"]
    absent null full nonnull example_store_file
  show ?thesis by simp
qed

subsection \<open>Address Resolver\<close>

lemma raise_for_status_passes:
  "code < 400 \<or> 600 \<le> code \<Longrightarrow> raise_for_status code msg = Inr ()"
  by (auto simp: raise_for_status_def)

lemma get_address_no_response:
  "requests_get e (viacep_url c) = NoResponse msg \<Longrightarrow>
   get_address e c = Inr (JObj [(''error'', JBool True), (''detail'', JStr msg)])"
  by (simp add: get_address_def get_address_try_def)

lemma get_address_bad_status:
  "requests_get e (viacep_url c) = Response code msg body \<Longrightarrow>
   400 \<le> code \<Longrightarrow> code < 600 \<Longrightarrow>
   get_address e c = Inr (JObj [(''error'', JBool True), (''detail'', JStr msg)])"
  by (simp add: get_address_def get_address_try_def raise_for_status_def and_then_def)

lemma get_address_erro:
  "requests_get e (viacep_url c) = Response code msg (JObj kvs) \<Longrightarrow>
   code < 400 \<or> 600 \<le> code \<Longrightarrow> ''erro'' \<in> fst ` set kvs \<Longrightarrow>
   get_address e c = Inr (JObj [(''error'', JBool True), (''detail'', JStr ''CEP not found.'')])"
  by (simp add: get_address_def get_address_try_def raise_for_status_passes and_then_def)

lemma get_address_found:
  "requests_get e (viacep_url c) = Response code msg (JObj kvs) \<Longrightarrow>
   code < 400 \<or> 600 \<le> code \<Longrightarrow> ''erro'' \<notin> fst ` set kvs \<Longrightarrow>
   map_of kvs ''logradouro'' = Some rua \<Longrightarrow> map_of kvs ''bairro'' = Some bairro \<Longrightarrow>
   map_of kvs ''localidade'' = Some cidade \<Longrightarrow> map_of kvs ''uf'' = Some estado \<Longrightarrow>
   get_address e c =
     Inr (JObj [(''error'', JBool False),
                (''data'', JObj [(''cep'', JStr c), (''rua'', rua), (''bairro'', bairro),
                                (''cidade'', cidade), (''estado'', estado)])])"
  by (simp add: get_address_def get_address_try_def raise_for_status_passes and_then_def)

lemma get_address_missing_field:
  "requests_get e (viacep_url c) = Response code msg (JObj kvs) \<Longrightarrow>
   code < 400 \<or> 600 \<le> code \<Longrightarrow> ''erro'' \<notin> fst ` set kvs \<Longrightarrow>
   map_of kvs ''logradouro'' = None \<or> map_of kvs ''bairro'' = None
     \<or> map_of kvs ''localidade'' = None \<or> map_of kvs ''uf'' = None \<Longrightarrow>
   \<exists>k. get_address e c = Inl (KeyError k)"
  by (auto simp: get_address_def get_address_try_def raise_for_status_passes and_then_def
        split: option.splits)

lemma get_address_not_object:
  "requests_get e (viacep_url c) = Response code msg body \<Longrightarrow>
   code < 400 \<or> 600 \<le> code \<Longrightarrow> (\<And>kvs. body \<noteq> JObj kvs) \<Longrightarrow>
   \<exists>m. get_address e c = Inl (AttributeError m)"
  by (cases body) (auto simp: get_address_def get_address_try_def raise_for_status_passes and_then_def)

lemma get_address_results:
  assumes "get_address e c = Inr r"
  shows "(\<exists>msg. r = JObj [(''error'', JBool True), (''detail'', JStr msg)])
       \<or> (\<exists>rua bairro cidade estado.
            r = JObj [(''error'', JBool False),
                      (''data'', JObj [(''cep'', JStr c), (''rua'', rua), (''bairro'', bairro),
                                      (''cidade'', cidade), (''estado'', estado)])])"
  using assms
  by (auto simp: get_address_def get_address_try_def and_then_def raise_for_status_def
        split: sum.splits exn.splits http_reply.splits if_splits)

subsection \<open>Save Address\<close>

lemma save_address_dict:
  assumes "db_file w = Content (JObj kvs)"
  shows "save_address e p w =
    (case map_of kvs (PayloadSaveAddress.rm p) of
       None \<Rightarrow> check_registration (PayloadSaveAddress.rm p) w
     | Some v \<Rightarrow>
        (case get_address e (PayloadSaveAddress.cep p) of
           Inl err \<Rightarrow> (Inl err, w)
         | Inr ad \<Rightarrow>
            (case subscript ad ''error'' of
               Inl err \<Rightarrow> (Inl err, w)
             | Inr f \<Rightarrow>
                if truthy f then (Inr ad, w)
                else (case merged_address p ad of
                        Inl err \<Rightarrow> (Inl err, w)
                      | Inr a \<Rightarrow>
                         (Inr (JObj [(''error'', JBool False), (''status'', JStr ''updated''),
                                (''data'', JStr (''Address for RM '' @ PayloadSaveAddress.rm p
                                     @ '' updated successfully.''))]),
                          w\<lparr>db_file := Content (JObj (dict_set kvs (PayloadSaveAddress.rm p) a))\<rparr>)))))"
  using assms check_registration_dict [OF assms, of "PayloadSaveAddress.rm p"]
  by (simp add: save_address_def io_bind_def pure_io_def read_db_def write_db_def
        split: option.splits sum.splits)

lemma save_address_raises:
  assumes "\<And>kvs. db_file w \<noteq> Content (JObj kvs)"
  shows "\<exists>err. save_address e p w = (Inl err, w)"
proof (cases "db_file w")
  case (Unreadable x)
  then show ?thesis
    by (simp add: save_address_def io_bind_def read_db_def)
next
  case (Content v)
  with assms have "\<exists>m. dict_keys v = Inl m" by (cases v) auto
  with Content show ?thesis
    by (auto simp: save_address_def check_registration_def io_bind_def read_db_def pure_io_def and_then_def)
qed

text \<open>
  Claim C2. For an identifier that is a key of the store (mapped to null or to a record) and
  a postal code the resolver answers without error, \<^verbatim>\<open>save_address\<close> returns the result
  with status updated and leaves the store with the entry of the identifier replaced by the
  record that merges the resolved fields with the house number and the name of the request;
  \<^verbatim>\<open>check_registration\<close> on the world it leaves then returns registered with that record.
\<close>

theorem save_address_then_registered:
  assumes store: "db_file w = Content (JObj kvs)"
    and known: "PayloadSaveAddress.rm p \<in> fst ` set kvs"
    and resolved: "get_address e (PayloadSaveAddress.cep p) = Inr r"
    and no_error: "subscript r ''error'' = Inr (JBool False)"
  shows "\<exists>rua bairro cidade estado merged w'.
           r = JObj [(''error'', JBool False),
                     (''data'', JObj [(''cep'', JStr (PayloadSaveAddress.cep p)), (''rua'', rua),
                                     (''bairro'', bairro), (''cidade'', cidade), (''estado'', estado)])]
         \<and> merged = JObj [(''cep'', JStr (PayloadSaveAddress.cep p)), (''rua'', rua),
                           (''bairro'', bairro), (''cidade'', cidade), (''estado'', estado),
                           (''numero'', JInt (numero p)), (''nome'', JStr (nome p))]
         \<and> w' = w\<lparr>db_file := Content (JObj (dict_set kvs (PayloadSaveAddress.rm p) merged))\<rparr>
         \<and> save_address e p w =
             (Inr (JObj [(''error'', JBool False), (''status'', JStr ''updated''),
                         (''data'', JStr (''Address for RM '' @ PayloadSaveAddress.rm p
                                            @ '' updated successfully.''))]), w')
         \<and> check_registration (PayloadSaveAddress.rm p) w' =
             (Inr (JObj [(''error'', JBool False), (''status'', JStr ''registered''),
                         (''detail'', JStr (''RM '' @ PayloadSaveAddress.rm p @ '' found in the database.'')),
                         (''data'', merged)]), w')"
proof -
  from known obtain v where v: "map_of kvs (PayloadSaveAddress.rm p) = Some v"
    by (metis map_of_eq_None_iff not_Some_eq)
  from get_address_results [OF resolved] no_error
  obtain rua bairro cidade estado where
    r: "r = JObj [(''error'', JBool False),
                  (''data'', JObj [(''cep'', JStr (PayloadSaveAddress.cep p)), (''rua'', rua),
                                  (''bairro'', bairro), (''cidade'', cidade), (''estado'', estado)])]"
    by auto
  let ?merged = "JObj [(''cep'', JStr (PayloadSaveAddress.cep p)), (''rua'', rua),
                       (''bairro'', bairro), (''cidade'', cidade), (''estado'', estado),
                       (''numero'', JInt (numero p)), (''nome'', JStr (nome p))]"
  let ?w' = "w\<lparr>db_file := Content (JObj (dict_set kvs (PayloadSaveAddress.rm p) ?merged))\<rparr>"
  have m: "merged_address p r = Inr ?merged"
    by (simp add: r merged_address_def and_then_def)
  have saved: "save_address e p w =
      (Inr (JObj [(''error'', JBool False), (''status'', JStr ''updated''),
                  (''data'', JStr (''Address for RM '' @ PayloadSaveAddress.rm p
                                     @ '' updated successfully.''))]), ?w')"
    using save_address_dict [OF store, of e p] v resolved m by (simp add: r)
  have "db_file ?w' = Content (JObj (dict_set kvs (PayloadSaveAddress.rm p) ?merged))"
    by simp
  from check_registration_dict [OF this, of "PayloadSaveAddress.rm p"]
  have checked: "check_registration (PayloadSaveAddress.rm p) ?w' =
      (Inr (JObj [(''error'', JBool False), (''status'', JStr ''registered''),
                  (''detail'', JStr (''RM '' @ PayloadSaveAddress.rm p @ '' found in the database.'')),
                  (''data'', ?merged)]), ?w')"
    by (simp add: map_of_dict_set)
  from r saved checked show ?thesis by blast
qed

theorem save_address_then_registered_witness:
  "db_file example_world = Content (JObj example_store)
 \<and> ''12345'' \<in> fst ` set example_store
 \<and> save_address example_env
       \<lparr>PayloadSaveAddress.rm = ''12345'', PayloadSaveAddress.cep = ''01001000'',
        numero = 100, nome = ''Ana''\<rparr> example_world =
       (Inr (JObj [(''error'', JBool False), (''status'', JStr ''updated''),
                   (''data'', JStr ''Address for RM 12345 updated successfully.'')]),
        example_world\<lparr>db_file := Content (JObj (dict_set example_store ''12345'' example_record))\<rparr>)
 \<and> check_registration ''12345''
       (example_world\<lparr>db_file := Content (JObj (dict_set example_store ''12345'' example_record))\<rparr>) =
       (Inr (JObj [(''error'', JBool False), (''status'', JStr ''registered''),
                   (''detail'', JStr ''RM 12345 found in the database.''),
                   (''data'', example_record)]),
        example_world\<lparr>db_file := Content (JObj (dict_set example_store ''12345'' example_record))\<rparr>)"
proof -
  let ?p = "\<lparr>PayloadSaveAddress.rm = ''12345'', PayloadSaveAddress.cep = ''01001000'',
             numero = 100, nome = ''Ana''\<rparr>"
  let ?r = "JObj [(''error'', JBool False),
                (''data'', JObj [(''cep'', JStr ''01001000''), (''rua'', JStr ''Praca da Se''),
                                (''bairro'', JStr ''Se''), (''cidade'', JStr ''Sao Paulo''),
                                (''estado'', JStr ''SP'')])]"
  have known: "PayloadSaveAddress.rm ?p \<in> fst ` set example_store"
    by (simp add: example_store_def)
  have resolved: "get_address example_env (PayloadSaveAddress.cep ?p) = Inr ?r"
    using example_resolved by simp
  have no_error: "subscript ?r ''error'' = Inr (JBool False)"
    by simp
  from save_address_then_registered [OF example_store_file known resolved no_error] known
    example_store_file
  show ?thesis by (auto simp: example_record_def)
qed

text \<open>
  Claim C3. For an identifier that is not a key of the store, \<^verbatim>\<open>save_address\<close> returns the
  not_found error payload and leaves the world, the store file in it, as it was.
\<close>

theorem save_address_unknown_identifier:
  assumes store: "db_file w = Content (JObj kvs)"
    and unknown: "PayloadSaveAddress.rm p \<notin> fst ` set kvs"
  shows "save_address e p w =
           (Inr (JObj [(''error'', JBool True), (''status'', JStr ''not_found''),
                       (''detail'', JStr (''RM '' @ PayloadSaveAddress.rm p @ '' not found in the database.''))]), w)"
proof -
  from unknown have none: "map_of kvs (PayloadSaveAddress.rm p) = None"
    by (simp add: map_of_eq_None_iff)
  show ?thesis
    using save_address_dict [OF store, of e p] check_registration_dict [OF store, of "PayloadSaveAddress.rm p"] none
    by simp
qed

theorem save_address_unknown_identifier_witness:
  "db_file example_world = Content (JObj example_store)
 \<and> ''99999'' \<notin> fst ` set example_store
 \<and> save_address example_env
       \<lparr>PayloadSaveAddress.rm = ''99999'', PayloadSaveAddress.cep = ''01001000'',
        numero = 100, nome = ''Ana''\<rparr> example_world =
       (Inr (JObj [(''error'', JBool True), (''status'', JStr ''not_found''),
                   (''detail'', JStr ''RM 99999 not found in the database.'')]), example_world)"
proof -
  let ?p = "\<lparr>PayloadSaveAddress.rm = ''99999'', PayloadSaveAddress.cep = ''01001000'',
             numero = 100, nome = ''Ana''\<rparr>"
  have unknown: "PayloadSaveAddress.rm ?p \<notin> fst ` set example_store"
    by (simp add: example_store_def)
  from save_address_unknown_identifier [OF example_store_file unknown, of example_env] unknown
    example_store_file
  show ?thesis by simp
qed

text \<open>
  Claim C4. Only an identifier that is not a key of the store stops \<^verbatim>\<open>save_address\<close> at the
  registration check: its result is the checker's result exactly when the identifier is
  absent. For a key mapped to null (the unregistered_address state) it goes on to the
  resolver: what the resolver raises or reports as an error is passed on and the store is
  left alone, and on a resolved address the merged record is written.
\<close>

theorem save_address_only_absent_blocks:
  assumes store: "db_file w = Content (JObj kvs)"
  shows "(fst (save_address e p w) = fst (check_registration (PayloadSaveAddress.rm p) w))
           = (PayloadSaveAddress.rm p \<notin> fst ` set kvs)
       \<and> (map_of kvs (PayloadSaveAddress.rm p) = Some JNull \<longrightarrow>
            (\<forall>err. get_address e (PayloadSaveAddress.cep p) = Inl err \<longrightarrow>
                save_address e p w = (Inl err, w))
          \<and> (\<forall>msg. get_address e (PayloadSaveAddress.cep p)
                       = Inr (JObj [(''error'', JBool True), (''detail'', JStr msg)]) \<longrightarrow>
                save_address e p w = (Inr (JObj [(''error'', JBool True), (''detail'', JStr msg)]), w))
          \<and> (\<forall>rua bairro cidade estado.
                get_address e (PayloadSaveAddress.cep p)
                  = Inr (JObj [(''error'', JBool False),
                               (''data'', JObj [(''cep'', JStr (PayloadSaveAddress.cep p)), (''rua'', rua),
                                    (''bairro'', bairro), (''cidade'', cidade), (''estado'', estado)])]) \<longrightarrow>
                save_address e p w =
                  (Inr (JObj [(''error'', JBool False), (''status'', JStr ''updated''),
                              (''data'', JStr (''Address for RM '' @ PayloadSaveAddress.rm p
                                                 @ '' updated successfully.''))]),
                   w\<lparr>db_file := Content (JObj (dict_set kvs (PayloadSaveAddress.rm p)
                        (JObj [(''cep'', JStr (PayloadSaveAddress.cep p)), (''rua'', rua),
                               (''bairro'', bairro), (''cidade'', cidade), (''estado'', estado),
                               (''numero'', JInt (numero p)), (''nome'', JStr (nome p))])))\<rparr>)))"
proof (intro conjI impI allI)
  show "(fst (save_address e p w) = fst (check_registration (PayloadSaveAddress.rm p) w))
           = (PayloadSaveAddress.rm p \<notin> fst ` set kvs)"
  proof (cases "map_of kvs (PayloadSaveAddress.rm p)")
    case None
    then have "save_address e p w = check_registration (PayloadSaveAddress.rm p) w"
      using save_address_dict [OF store, of e p] by simp
    moreover from None have "PayloadSaveAddress.rm p \<notin> fst ` set kvs"
      by (simp add: map_of_eq_None_iff)
    ultimately show ?thesis by simp
  next
    case (Some v)
    then have known: "PayloadSaveAddress.rm p \<in> fst ` set kvs"
      by (metis map_of_eq_None_iff option.distinct(1))
    have "fst (save_address e p w) \<noteq> fst (check_registration (PayloadSaveAddress.rm p) w)"
      using save_address_dict [OF store, of e p] Some
        check_registration_dict [OF store, of "PayloadSaveAddress.rm p"]
      by (auto split: sum.splits if_splits dest!: get_address_results)
    with known show ?thesis by simp
  qed
next
  fix err
  assume "map_of kvs (PayloadSaveAddress.rm p) = Some JNull"
    and "get_address e (PayloadSaveAddress.cep p) = Inl err"
  then show "save_address e p w = (Inl err, w)"
    using save_address_dict [OF store, of e p] by simp
next
  fix msg
  assume "map_of kvs (PayloadSaveAddress.rm p) = Some JNull"
    and "get_address e (PayloadSaveAddress.cep p)
           = Inr (JObj [(''error'', JBool True), (''detail'', JStr msg)])"
  then show "save_address e p w = (Inr (JObj [(''error'', JBool True), (''detail'', JStr msg)]), w)"
    using save_address_dict [OF store, of e p] by simp
next
  fix rua bairro cidade estado
  assume "map_of kvs (PayloadSaveAddress.rm p) = Some JNull"
    and "get_address e (PayloadSaveAddress.cep p)
                  = Inr (JObj [(''error'', JBool False),
                               (''data'', JObj [(''cep'', JStr (PayloadSaveAddress.cep p)), (''rua'', rua),
                                    (''bairro'', bairro), (''cidade'', cidade), (''estado'', estado)])])"
  then show "save_address e p w =
                  (Inr (JObj [(''error'', JBool False), (''status'', JStr ''updated''),
                              (''data'', JStr (''Address for RM '' @ PayloadSaveAddress.rm p
                                                 @ '' updated successfully.''))]),
                   w\<lparr>db_file := Content (JObj (dict_set kvs (PayloadSaveAddress.rm p)
                        (JObj [(''cep'', JStr (PayloadSaveAddress.cep p)), (''rua'', rua),
                               (''bairro'', bairro), (''cidade'', cidade), (''estado'', estado),
                               (''numero'', JInt (numero p)), (''nome'', JStr (nome p))])))\<rparr>)"
    using save_address_dict [OF store, of e p] by (simp add: merged_address_def and_then_def)
qed

theorem save_address_only_absent_blocks_witness:
  "db_file example_world = Content (JObj example_store)
 \<and> map_of example_store ''12345'' = Some JNull
 \<and> fst (save_address example_env
       \<lparr>PayloadSaveAddress.rm = ''12345'', PayloadSaveAddress.cep = ''01001000'',
        numero = 100, nome = ''Ana''\<rparr> example_world)
     \<noteq> fst (check_registration ''12345'' example_world)
 \<and> save_address example_env
       \<lparr>PayloadSaveAddress.rm = ''12345'', PayloadSaveAddress.cep = ''01001000'',
        numero = 100, nome = ''Ana''\<rparr> example_world =
       (Inr (JObj [(''error'', JBool False), (''status'', JStr ''updated''),
                   (''data'', JStr ''Address for RM 12345 updated successfully.'')]),
        example_world\<lparr>db_file := Content (JObj (dict_set example_store ''12345'' example_record))\<rparr>)
 \<and> fst (save_address example_env
       \<lparr>PayloadSaveAddress.rm = ''99999'', PayloadSaveAddress.cep = ''01001000'',
        numero = 100, nome = ''Ana''\<rparr> example_world)
     = fst (check_registration ''99999'' example_world)"
proof -
  have null: "map_of example_store ''12345'' = Some JNull"
    and known: "''12345'' \<in> fst ` set example_store"
    and unknown: "''99999'' \<notin> fst ` set example_store"
    by (simp_all add: example_store_def)
  let ?p = "\<lparr>PayloadSaveAddress.rm = ''12345'', PayloadSaveAddress.cep = ''01001000'',
        numero = 100, nome = ''Ana''\<rparr>"
  let ?q = "\<lparr>PayloadSaveAddress.rm = ''99999'', PayloadSaveAddress.cep = ''01001000'',
        numero = 100, nome = ''Ana''\<rparr>"
  note p = save_address_only_absent_blocks [OF example_store_file, of example_env ?p]
  note q = save_address_only_absent_blocks [OF example_store_file, of example_env ?q]
  from p known have 1: "fst (save_address example_env ?p example_world)
     \<noteq> fst (check_registration ''12345'' example_world)"
    by simp
  from p null example_resolved have 2: "save_address example_env ?p example_world =
       (Inr (JObj [(''error'', JBool False), (''status'', JStr ''updated''),
                   (''data'', JStr ''Address for RM 12345 updated successfully.'')]),
        example_world\<lparr>db_file := Content (JObj (dict_set example_store ''12345'' example_record))\<rparr>)"
    by (simp add: example_record_def)
  from q unknown have 3: "fst (save_address example_env ?q example_world)
     = fst (check_registration ''99999'' example_world)"
    by simp
  from example_store_file null 1 2 3 show ?thesis by blast
qed

text \<open>
  Claim C10. A call of \<^verbatim>\<open>save_address\<close> that returns the result with status updated found a
  dict in the store file and leaves that dict with the entry of the request's identifier
  set to the merged record, whose keys are cep, rua, bairro, cidade, estado, numero, nome
  with cep the postal code of the request: every other identifier keeps its entry, and the
  keys of the store and their order are unchanged.
\<close>

theorem save_address_frame:
  assumes saved: "save_address e p w = (Inr res, w')"
    and success: "subscript res ''status'' = Inr (JStr ''updated'')"
  shows "\<exists>kvs rua bairro cidade estado merged kvs'.
           db_file w = Content (JObj kvs)
         \<and> merged = JObj [(''cep'', JStr (PayloadSaveAddress.cep p)), (''rua'', rua),
                           (''bairro'', bairro), (''cidade'', cidade), (''estado'', estado),
                           (''numero'', JInt (numero p)), (''nome'', JStr (nome p))]
         \<and> kvs' = dict_set kvs (PayloadSaveAddress.rm p) merged
         \<and> w' = w\<lparr>db_file := Content (JObj kvs')\<rparr>
         \<and> map_of kvs' (PayloadSaveAddress.rm p) = Some merged
         \<and> (\<forall>other. other \<noteq> PayloadSaveAddress.rm p \<longrightarrow> map_of kvs' other = map_of kvs other)
         \<and> map fst kvs' = map fst kvs"
proof -
  from saved save_address_raises [of w e p]
  obtain kvs where store: "db_file w = Content (JObj kvs)" by fastforce
  note dict = save_address_dict [OF store, of e p]
  have known: "PayloadSaveAddress.rm p \<in> fst ` set kvs"
  proof (rule ccontr)
    assume "PayloadSaveAddress.rm p \<notin> fst ` set kvs"
    then have "map_of kvs (PayloadSaveAddress.rm p) = None" by (simp add: map_of_eq_None_iff)
    with dict check_registration_dict [OF store, of "PayloadSaveAddress.rm p"] saved success
    show False by auto
  qed
  then obtain v where v: "map_of kvs (PayloadSaveAddress.rm p) = Some v"
    by (metis map_of_eq_None_iff not_Some_eq)
  from dict v saved obtain ad where ad: "get_address e (PayloadSaveAddress.cep p) = Inr ad"
    by (cases "get_address e (PayloadSaveAddress.cep p)") auto
  from get_address_results [OF ad] dict v saved success ad
  obtain rua bairro cidade estado where
    r: "ad = JObj [(''error'', JBool False),
                  (''data'', JObj [(''cep'', JStr (PayloadSaveAddress.cep p)), (''rua'', rua),
                                  (''bairro'', bairro), (''cidade'', cidade), (''estado'', estado)])]"
    by auto
  let ?merged = "JObj [(''cep'', JStr (PayloadSaveAddress.cep p)), (''rua'', rua),
                       (''bairro'', bairro), (''cidade'', cidade), (''estado'', estado),
                       (''numero'', JInt (numero p)), (''nome'', JStr (nome p))]"
  have w': "w' = w\<lparr>db_file := Content (JObj (dict_set kvs (PayloadSaveAddress.rm p) ?merged))\<rparr>"
    using dict v saved ad by (simp add: r merged_address_def and_then_def)
  show ?thesis
    by (rule exI [of _ kvs], rule exI [of _ rua], rule exI [of _ bairro],
        rule exI [of _ cidade], rule exI [of _ estado])
       (simp add: store w' known map_of_dict_set keys_dict_set)
qed

lemma example_saved:
  "save_address example_env
       \<lparr>PayloadSaveAddress.rm = ''12345'', PayloadSaveAddress.cep = ''01001000'',
        numero = 100, nome = ''Ana''\<rparr> example_world =
       (Inr (JObj [(''error'', JBool False), (''status'', JStr ''updated''),
                   (''data'', JStr ''Address for RM 12345 updated successfully.'')]),
        example_world\<lparr>db_file := Content (JObj (dict_set example_store ''12345'' example_record))\<rparr>)"
  using save_address_dict [OF example_store_file, of example_env
      "\<lparr>PayloadSaveAddress.rm = ''12345'', PayloadSaveAddress.cep = ''01001000'',
        numero = 100, nome = ''Ana''\<rparr>"] example_resolved
  by (simp add: example_store_def example_record_def merged_address_def and_then_def)

theorem save_address_frame_witness:
  "save_address example_env
       \<lparr>PayloadSaveAddress.rm = ''12345'', PayloadSaveAddress.cep = ''01001000'',
        numero = 100, nome = ''Ana''\<rparr> example_world =
       (Inr (JObj [(''error'', JBool False), (''status'', JStr ''updated''),
                   (''data'', JStr ''Address for RM 12345 updated successfully.'')]),
        example_world\<lparr>db_file := Content (JObj (dict_set example_store ''12345'' example_record))\<rparr>)
 \<and> subscript (JObj [(''error'', JBool False), (''status'', JStr ''updated''),
                   (''data'', JStr ''Address for RM 12345 updated successfully.'')]) ''status''
     = Inr (JStr ''updated'')
 \<and> (\<exists>kvs kvs'.
        db_file example_world = Content (JObj kvs)
      \<and> kvs' = dict_set kvs ''12345'' example_record
      \<and> db_file (example_world\<lparr>db_file := Content (JObj (dict_set example_store ''12345'' example_record))\<rparr>)
          = Content (JObj kvs')
      \<and> map_of kvs' ''12345'' = Some example_record
      \<and> map_of kvs' ''123456'' = map_of kvs ''123456''
      \<and> map fst kvs' = map fst kvs)"
proof -
  let ?res = "JObj [(''error'', JBool False), (''status'', JStr ''updated''),
                   (''data'', JStr ''Address for RM 12345 updated successfully.'')]"
  have success: "subscript ?res ''status'' = Inr (JStr ''updated'')" by simp
  from save_address_frame [OF example_saved success]
  obtain kvs rua bairro cidade estado merged kvs' where
    f: "db_file example_world = Content (JObj kvs)"
       "merged = JObj [(''cep'', JStr ''01001000''), (''rua'', rua),
                           (''bairro'', bairro), (''cidade'', cidade), (''estado'', estado),
                           (''numero'', JInt 100), (''nome'', JStr ''Ana'')]"
       "kvs' = dict_set kvs ''12345'' merged"
       "example_world\<lparr>db_file := Content (JObj (dict_set example_store ''12345'' example_record))\<rparr>
          = example_world\<lparr>db_file := Content (JObj kvs')\<rparr>"
       "map_of kvs' ''12345'' = Some merged"
       "\<forall>other. other \<noteq> ''12345'' \<longrightarrow> map_of kvs' other = map_of kvs other"
       "map fst kvs' = map fst kvs"
    by auto
  from f(1) example_store_file have kvs: "kvs = example_store" by simp
  from f(4) have "db_file (example_world\<lparr>db_file := Content (JObj (dict_set example_store ''12345'' example_record))\<rparr>)
          = db_file (example_world\<lparr>db_file := Content (JObj kvs')\<rparr>)" by simp
  then have kvs': "kvs' = dict_set example_store ''12345'' example_record" by simp
  from f(5) kvs' have m: "merged = example_record" by (simp add: map_of_dict_set)
  from f(6) have other: "map_of kvs' ''123456'' = map_of kvs ''123456''" by simp
  from example_saved success f(1) f(3) f(5) f(7) other kvs kvs' m
  show ?thesis by (intro conjI exI [of _ kvs] exI [of _ kvs']) simp_all
qed

subsection \<open>Order Recorder\<close>

lemma make_order_tech_dict:
  assumes "db_file w = Content (JObj kvs)"
  shows "make_order_tech e p s w =
    (case map_of kvs (PayloadMakeOrderTech.rm p) of
       None \<Rightarrow> check_registration (PayloadMakeOrderTech.rm p) w
     | Some v \<Rightarrow>
        if v = JNull then check_registration (PayloadMakeOrderTech.rm p) w
        else order_except (make_order_tech_try e p s v) w)"
  using check_registration_dict [OF assms, of "PayloadMakeOrderTech.rm p"]
  by (simp add: make_order_tech_def io_bind_def pure_io_def split: option.splits)

lemma make_order_poke_dict:
  assumes "db_file w = Content (JObj kvs)"
  shows "make_order_poke e p s w =
    (case map_of kvs (PayloadMakeOrderPoke.rm p) of
       None \<Rightarrow> check_registration (PayloadMakeOrderPoke.rm p) w
     | Some v \<Rightarrow>
        if v = JNull then check_registration (PayloadMakeOrderPoke.rm p) w
        else order_except (make_order_poke_try e p s v) w)"
  using check_registration_dict [OF assms, of "PayloadMakeOrderPoke.rm p"]
  by (simp add: make_order_poke_def io_bind_def pure_io_def split: option.splits)

lemma order_except_returns: "\<exists>res w'. order_except body w = (Inr res, w')"
  by (cases "body w") (auto simp: order_except_def split: sum.splits)

lemma order_failure_status:
  "subscript (order_failure err) ''status'' =
     Inr (JStr (case err of APIError m \<Rightarrow> ''api_error'' | KeyError k \<Rightarrow> ''missing_data''
                | _ \<Rightarrow> ''unknown_error''))"
  by (cases err) simp_all

text \<open>
  Claim C5. For an order, tech or poke, whose identifier is not registered (not a key of the
  store, or a key mapped to null), the order function returns what \<^verbatim>\<open>check_registration\<close>
  returns, an error result, and leaves the world as it was: no call of \<^verbatim>\<open>append_row\<close> is
  added to the recorded calls.
\<close>

theorem order_for_unregistered_identifier:
  assumes store: "db_file w = Content (JObj kvs)"
    and tech: "PayloadMakeOrderTech.rm pt \<notin> fst ` set kvs
               \<or> map_of kvs (PayloadMakeOrderTech.rm pt) = Some JNull"
    and poke: "PayloadMakeOrderPoke.rm pp \<notin> fst ` set kvs
               \<or> map_of kvs (PayloadMakeOrderPoke.rm pp) = Some JNull"
  shows "make_order_tech e pt s w = check_registration (PayloadMakeOrderTech.rm pt) w
       \<and> make_order_poke e pp s' w = check_registration (PayloadMakeOrderPoke.rm pp) w
       \<and> (\<exists>res. make_order_tech e pt s w = (Inr res, w) \<and> subscript res ''error'' = Inr (JBool True))
       \<and> (\<exists>res. make_order_poke e pp s' w = (Inr res, w) \<and> subscript res ''error'' = Inr (JBool True))
       \<and> append_calls (snd (make_order_tech e pt s w)) = append_calls w
       \<and> append_calls (snd (make_order_poke e pp s' w)) = append_calls w"
proof -
  from tech have t: "map_of kvs (PayloadMakeOrderTech.rm pt) = None
                   \<or> map_of kvs (PayloadMakeOrderTech.rm pt) = Some JNull"
    by (simp add: map_of_eq_None_iff)
  from poke have p: "map_of kvs (PayloadMakeOrderPoke.rm pp) = None
                   \<or> map_of kvs (PayloadMakeOrderPoke.rm pp) = Some JNull"
    by (simp add: map_of_eq_None_iff)
  have 1: "make_order_tech e pt s w = check_registration (PayloadMakeOrderTech.rm pt) w"
    using make_order_tech_dict [OF store, of e pt s] t by auto
  have 2: "make_order_poke e pp s' w = check_registration (PayloadMakeOrderPoke.rm pp) w"
    using make_order_poke_dict [OF store, of e pp s'] p by auto
  have 3: "\<exists>res. check_registration (PayloadMakeOrderTech.rm pt) w = (Inr res, w)
               \<and> subscript res ''error'' = Inr (JBool True)"
    using check_registration_dict [OF store, of "PayloadMakeOrderTech.rm pt"] t by auto
  have 4: "\<exists>res. check_registration (PayloadMakeOrderPoke.rm pp) w = (Inr res, w)
               \<and> subscript res ''error'' = Inr (JBool True)"
    using check_registration_dict [OF store, of "PayloadMakeOrderPoke.rm pp"] p by auto
  from 1 2 3 4 show ?thesis by auto
qed

theorem order_for_unregistered_identifier_witness:
  "db_file example_world = Content (JObj example_store)
 \<and> map_of example_store ''12345'' = Some JNull
 \<and> ''99999'' \<notin> fst ` set example_store
 \<and> make_order_tech example_env
       \<lparr>PayloadMakeOrderTech.rm = ''12345'', produto = ''mouse'', marca = ''acme'',
        PayloadMakeOrderTech.valor = 0x4059000000000000\<rparr> tech_store_sheet_name example_world =
       (Inr (JObj [(''error'', JBool True), (''status'', JStr ''unregistered_address''),
                   (''detail'', JStr ''RM 12345 found in the database, but its address is None.'')]),
        example_world)
 \<and> make_order_poke example_env
       \<lparr>PayloadMakeOrderPoke.rm = ''99999'', tamanho = ''M'', base = ''arroz'', topping = ''manga'',
        crunch = ''gergelim'', proteina = ''salmao'', molho = ''shoyu'',
        PayloadMakeOrderPoke.valor = 0x4045000000000000\<rparr> poke_store_sheet_name example_world =
       (Inr (JObj [(''error'', JBool True), (''status'', JStr ''not_found''),
                   (''detail'', JStr ''RM 99999 not found in the database.'')]),
        example_world)
 \<and> append_calls (snd (make_order_tech example_env
       \<lparr>PayloadMakeOrderTech.rm = ''12345'', produto = ''mouse'', marca = ''acme'',
        PayloadMakeOrderTech.valor = 0x4059000000000000\<rparr> tech_store_sheet_name example_world)) = []"
proof -
  let ?pt = "\<lparr>PayloadMakeOrderTech.rm = ''12345'', produto = ''mouse'', marca = ''acme'',
        PayloadMakeOrderTech.valor = 0x4059000000000000\<rparr>"
  let ?pp = "\<lparr>PayloadMakeOrderPoke.rm = ''99999'', tamanho = ''M'', base = ''arroz'', topping = ''manga'',
        crunch = ''gergelim'', proteina = ''salmao'', molho = ''shoyu'',
        PayloadMakeOrderPoke.valor = 0x4045000000000000\<rparr>"
  have null: "map_of example_store ''12345'' = Some JNull"
    and absent: "''99999'' \<notin> fst ` set example_store"
    by (simp_all add: example_store_def)
  have none: "map_of example_store ''99999'' = None"
    by (simp add: example_store_def)
  have tech: "PayloadMakeOrderTech.rm ?pt \<notin> fst ` set example_store
               \<or> map_of example_store (PayloadMakeOrderTech.rm ?pt) = Some JNull"
    using null by simp
  have poke: "PayloadMakeOrderPoke.rm ?pp \<notin> fst ` set example_store
               \<or> map_of example_store (PayloadMakeOrderPoke.rm ?pp) = Some JNull"
    using absent by simp
  note t = order_for_unregistered_identifier [OF example_store_file tech poke,
      of example_env tech_store_sheet_name poke_store_sheet_name]
  have c1: "check_registration ''12345'' example_world =
       (Inr (JObj [(''error'', JBool True), (''status'', JStr ''unregistered_address''),
                   (''detail'', JStr ''RM 12345 found in the database, but its address is None.'')]),
        example_world)"
    using check_registration_dict [OF example_store_file, of "''12345''"] null by simp
  have c2: "check_registration ''99999'' example_world =
       (Inr (JObj [(''error'', JBool True), (''status'', JStr ''not_found''),
                   (''detail'', JStr ''RM 99999 not found in the database.'')]),
        example_world)"
    using check_registration_dict [OF example_store_file, of "''99999''"] none by simp
  have calls: "append_calls example_world = []" by (simp add: example_world_def)
  from t c1 have 1: "make_order_tech example_env ?pt tech_store_sheet_name example_world =
       (Inr (JObj [(''error'', JBool True), (''status'', JStr ''unregistered_address''),
                   (''detail'', JStr ''RM 12345 found in the database, but its address is None.'')]),
        example_world)" by simp
  from t c2 have 2: "make_order_poke example_env ?pp poke_store_sheet_name example_world =
       (Inr (JObj [(''error'', JBool True), (''status'', JStr ''not_found''),
                   (''detail'', JStr ''RM 99999 not found in the database.'')]),
        example_world)" by simp
  from 1 calls have 3: "append_calls (snd (make_order_tech example_env ?pt tech_store_sheet_name
       example_world)) = []" by simp
  from example_store_file null absent 1 2 3 show ?thesis by blast
qed

text \<open>
  Claim C7, as the code has it. When the store file holds a dict, no exception leaves an
  order function: whatever the \<^verbatim>\<open>try\<close> body raises (opening the worksheet, building the row
  from the address record, appending it) is returned as an error result, with status
  api_error for an \<^verbatim>\<open>APIError\<close> of the spreadsheet library, missing_data for a
  \<^verbatim>\<open>KeyError\<close> (a field the address record lacks) and unknown_error for every other
  exception. The registration check runs before the \<^verbatim>\<open>try\<close> statement: when the store file
  cannot be loaded, the exception of the read leaves the order function.
\<close>

theorem order_failures_as_data:
  "(db_file w = Content (JObj kvs) \<longrightarrow>
      (\<exists>res w'. make_order_tech e pt s w = (Inr res, w'))
    \<and> (\<exists>res w'. make_order_poke e pp s' w = (Inr res, w')))
 \<and> (\<forall>data err w'.
      db_file w = Content (JObj kvs) \<and> map_of kvs (PayloadMakeOrderTech.rm pt) = Some data
      \<and> data \<noteq> JNull \<and> make_order_tech_try e pt s data w = (Inl err, w') \<longrightarrow>
      make_order_tech e pt s w = (Inr (order_failure err), w'))
 \<and> (\<forall>data err w'.
      db_file w = Content (JObj kvs) \<and> map_of kvs (PayloadMakeOrderPoke.rm pp) = Some data
      \<and> data \<noteq> JNull \<and> make_order_poke_try e pp s' data w = (Inl err, w') \<longrightarrow>
      make_order_poke e pp s' w = (Inr (order_failure err), w'))
 \<and> (\<forall>err. subscript (order_failure err) ''error'' = Inr (JBool True)
         \<and> subscript (order_failure err) ''status'' =
             Inr (JStr (case err of APIError m \<Rightarrow> ''api_error'' | KeyError k \<Rightarrow> ''missing_data''
                        | _ \<Rightarrow> ''unknown_error'')))
 \<and> (\<forall>err. db_file w = Unreadable err \<longrightarrow>
        make_order_tech e pt s w = (Inl err, w) \<and> make_order_poke e pp s' w = (Inl err, w))"
proof (intro conjI allI impI)
  assume store: "db_file w = Content (JObj kvs)"
  show "\<exists>res w'. make_order_tech e pt s w = (Inr res, w')"
    using make_order_tech_dict [OF store, of e pt s]
      check_registration_dict [OF store, of "PayloadMakeOrderTech.rm pt"]
      order_except_returns [of "make_order_tech_try e pt s (the (map_of kvs (PayloadMakeOrderTech.rm pt)))" w]
    by (auto split: option.splits)
  show "\<exists>res w'. make_order_poke e pp s' w = (Inr res, w')"
    using make_order_poke_dict [OF store, of e pp s']
      check_registration_dict [OF store, of "PayloadMakeOrderPoke.rm pp"]
      order_except_returns [of "make_order_poke_try e pp s' (the (map_of kvs (PayloadMakeOrderPoke.rm pp)))" w]
    by (auto split: option.splits)
next
  fix data err w'
  assume "db_file w = Content (JObj kvs) \<and> map_of kvs (PayloadMakeOrderTech.rm pt) = Some data
      \<and> data \<noteq> JNull \<and> make_order_tech_try e pt s data w = (Inl err, w')"
  then show "make_order_tech e pt s w = (Inr (order_failure err), w')"
    using make_order_tech_dict [of w kvs e pt s] by (simp add: order_except_def)
next
  fix data err w'
  assume "db_file w = Content (JObj kvs) \<and> map_of kvs (PayloadMakeOrderPoke.rm pp) = Some data
      \<and> data \<noteq> JNull \<and> make_order_poke_try e pp s' data w = (Inl err, w')"
  then show "make_order_poke e pp s' w = (Inr (order_failure err), w')"
    using make_order_poke_dict [of w kvs e pp s'] by (simp add: order_except_def)
next
  fix err
  show "subscript (order_failure err) ''error'' = Inr (JBool True)"
    by (cases err) simp_all
  show "subscript (order_failure err) ''status'' =
             Inr (JStr (case err of APIError m \<Rightarrow> ''api_error'' | KeyError k \<Rightarrow> ''missing_data''
                        | _ \<Rightarrow> ''unknown_error''))"
    by (rule order_failure_status)
next
  fix err
  assume "db_file w = Unreadable err"
  then show "make_order_tech e pt s w = (Inl err, w)"
    and "make_order_poke e pp s' w = (Inl err, w)"
    by (simp_all add: make_order_tech_def make_order_poke_def check_registration_def
          io_bind_def read_db_def)
qed

theorem order_failures_as_data_witness:
  "db_file example_world = Content (JObj example_store)
 \<and> map_of example_store ''54321'' = Some (JObj [(''nome'', JStr ''Rui'')])
 \<and> make_order_tech_try example_env
       \<lparr>PayloadMakeOrderTech.rm = ''54321'', produto = ''mouse'', marca = ''acme'',
        PayloadMakeOrderTech.valor = 0x4059000000000000\<rparr> tech_store_sheet_name
       (JObj [(''nome'', JStr ''Rui'')]) example_world = (Inl (KeyError ''cep''), example_world)
 \<and> make_order_tech example_env
       \<lparr>PayloadMakeOrderTech.rm = ''54321'', produto = ''mouse'', marca = ''acme'',
        PayloadMakeOrderTech.valor = 0x4059000000000000\<rparr> tech_store_sheet_name example_world =
       (Inr (JObj [(''error'', JBool True), (''status'', JStr ''missing_data''),
                   (''detail'', JStr (''Missing data in address details: '' @ repr_str ''cep''))]),
        example_world)
 \<and> subscript (order_failure (APIError ''quota exceeded'')) ''status'' = Inr (JStr ''api_error'')
 \<and> subscript (order_failure (OtherException ''connection reset'')) ''status''
       = Inr (JStr ''unknown_error'')
 \<and> db_file (example_world\<lparr>db_file := Unreadable (FileError ''No such file or directory'')\<rparr>)
       = Unreadable (FileError ''No such file or directory'')
 \<and> make_order_poke example_env
       \<lparr>PayloadMakeOrderPoke.rm = ''123456'', tamanho = ''M'', base = ''arroz'', topping = ''manga'',
        crunch = ''gergelim'', proteina = ''salmao'', molho = ''shoyu'',
        PayloadMakeOrderPoke.valor = 0x4045000000000000\<rparr> poke_store_sheet_name
       (example_world\<lparr>db_file := Unreadable (FileError ''No such file or directory'')\<rparr>) =
       (Inl (FileError ''No such file or directory''),
        example_world\<lparr>db_file := Unreadable (FileError ''No such file or directory'')\<rparr>)"
proof -
  let ?pt = "\<lparr>PayloadMakeOrderTech.rm = ''54321'', produto = ''mouse'', marca = ''acme'',
        PayloadMakeOrderTech.valor = 0x4059000000000000\<rparr>"
  let ?pp = "\<lparr>PayloadMakeOrderPoke.rm = ''123456'', tamanho = ''M'', base = ''arroz'', topping = ''manga'',
        crunch = ''gergelim'', proteina = ''salmao'', molho = ''shoyu'',
        PayloadMakeOrderPoke.valor = 0x4045000000000000\<rparr>"
  let ?data = "JObj [(''nome'', JStr ''Rui'')]"
  let ?gone = "example_world\<lparr>db_file := Unreadable (FileError ''No such file or directory'')\<rparr>"
  have stored: "map_of example_store ''54321'' = Some ?data"
    by (simp add: example_store_def)
  have raised: "make_order_tech_try example_env ?pt tech_store_sheet_name ?data example_world
                  = (Inl (KeyError ''cep''), example_world)"
    by (simp add: make_order_tech_try_def io_bind_def pure_io_def open_worksheet_def
          order_tech_def and_then_def example_env_def)
  have gone: "db_file ?gone = Unreadable (FileError ''No such file or directory'')"
    by simp
  note here = order_failures_as_data [of example_world example_store example_env ?pt
      tech_store_sheet_name ?pp poke_store_sheet_name]
  note there = order_failures_as_data [of ?gone example_store example_env ?pt
      tech_store_sheet_name ?pp poke_store_sheet_name]
  from here example_store_file stored raised
  have 1: "make_order_tech example_env ?pt tech_store_sheet_name example_world
             = (Inr (order_failure (KeyError ''cep'')), example_world)"
    by simp
  from here have 2: "subscript (order_failure (APIError ''quota exceeded'')) ''status''
                       = Inr (JStr ''api_error'')"
    and 3: "subscript (order_failure (OtherException ''connection reset'')) ''status''
              = Inr (JStr ''unknown_error'')"
    by simp_all
  from there gone
  have 4: "make_order_poke example_env ?pp poke_store_sheet_name ?gone
             = (Inl (FileError ''No such file or directory''), ?gone)"
    by blast
  from 1 have m: "make_order_tech example_env ?pt tech_store_sheet_name example_world =
       (Inr (JObj [(''error'', JBool True), (''status'', JStr ''missing_data''),
                   (''detail'', JStr (''Missing data in address details: '' @ repr_str ''cep''))]),
        example_world)"
    by simp
  from example_store_file stored raised m 2 3 gone 4 show ?thesis by blast
qed

text \<open>
  Claim C7 as stated fails: with the store file missing, \<^verbatim>\<open>make_order_tech\<close> raises the
  error of the read instead of returning an error result.
\<close>

theorem order_store_failure_counterexample:
  "make_order_tech example_env
     \<lparr>PayloadMakeOrderTech.rm = ''123456'', produto = ''mouse'', marca = ''acme'',
      PayloadMakeOrderTech.valor = 0x4059000000000000\<rparr>
     tech_store_sheet_name
     \<lparr>db_file = Unreadable (FileError ''No such file or directory''), append_calls = []\<rparr>
   = (Inl (FileError ''No such file or directory''),
      \<lparr>db_file = Unreadable (FileError ''No such file or directory''), append_calls = []\<rparr>)"
  by (simp add: make_order_tech_def check_registration_def io_bind_def read_db_def)

subsection \<open>Address Resolver: results and exceptions\<close>

text \<open>
  Claim C6, as the code has it. \<^verbatim>\<open>get_address\<close> returns a tagged result when the request
  fails in transport, when the status is a client or server error (both with the text of
  the exception as detail), and when the response passes the status check with a JSON
  object that has the key erro or has the four keys logradouro, bairro, localidade and uf.
  Its \<^verbatim>\<open>except\<close> clause catches \<^verbatim>\<open>RequestException\<close> only: on an object without erro that
  lacks one of the four keys a \<^verbatim>\<open>KeyError\<close> leaves the function, on a body that is not an
  object an \<^verbatim>\<open>AttributeError\<close>.
\<close>

theorem get_address_tagged_results:
  "(\<forall>msg. requests_get e (viacep_url c) = NoResponse msg \<longrightarrow>
      get_address e c = Inr (JObj [(''error'', JBool True), (''detail'', JStr msg)]))
 \<and> (\<forall>code msg body. requests_get e (viacep_url c) = Response code msg body
        \<and> 400 \<le> code \<and> code < 600 \<longrightarrow>
      get_address e c = Inr (JObj [(''error'', JBool True), (''detail'', JStr msg)]))
 \<and> (\<forall>code msg kvs. requests_get e (viacep_url c) = Response code msg (JObj kvs)
        \<and> (code < 400 \<or> 600 \<le> code) \<and> ''erro'' \<in> fst ` set kvs \<longrightarrow>
      get_address e c = Inr (JObj [(''error'', JBool True), (''detail'', JStr ''CEP not found.'')]))
 \<and> (\<forall>code msg kvs rua bairro cidade estado.
        requests_get e (viacep_url c) = Response code msg (JObj kvs)
        \<and> (code < 400 \<or> 600 \<le> code) \<and> ''erro'' \<notin> fst ` set kvs
        \<and> map_of kvs ''logradouro'' = Some rua \<and> map_of kvs ''bairro'' = Some bairro
        \<and> map_of kvs ''localidade'' = Some cidade \<and> map_of kvs ''uf'' = Some estado \<longrightarrow>
      get_address e c =
        Inr (JObj [(''error'', JBool False),
                   (''data'', JObj [(''cep'', JStr c), (''rua'', rua), (''bairro'', bairro),
                                   (''cidade'', cidade), (''estado'', estado)])]))
 \<and> (\<forall>code msg kvs. requests_get e (viacep_url c) = Response code msg (JObj kvs)
        \<and> (code < 400 \<or> 600 \<le> code) \<and> ''erro'' \<notin> fst ` set kvs
        \<and> (map_of kvs ''logradouro'' = None \<or> map_of kvs ''bairro'' = None
             \<or> map_of kvs ''localidade'' = None \<or> map_of kvs ''uf'' = None) \<longrightarrow>
      (\<exists>k. get_address e c = Inl (KeyError k)))
 \<and> (\<forall>code msg body. requests_get e (viacep_url c) = Response code msg body
        \<and> (code < 400 \<or> 600 \<le> code) \<and> (\<forall>kvs. body \<noteq> JObj kvs) \<longrightarrow>
      (\<exists>m. get_address e c = Inl (AttributeError m)))"
proof (intro conjI allI impI)
  fix msg
  assume "requests_get e (viacep_url c) = NoResponse msg"
  then show "get_address e c = Inr (JObj [(''error'', JBool True), (''detail'', JStr msg)])"
    by (rule get_address_no_response)
next
  fix code msg body
  assume "requests_get e (viacep_url c) = Response code msg body \<and> 400 \<le> code \<and> code < 600"
  then show "get_address e c = Inr (JObj [(''error'', JBool True), (''detail'', JStr msg)])"
    using get_address_bad_status [of e c code msg body] by simp
next
  fix code msg kvs
  assume "requests_get e (viacep_url c) = Response code msg (JObj kvs)
        \<and> (code < 400 \<or> 600 \<le> code) \<and> ''erro'' \<in> fst ` set kvs"
  then show "get_address e c = Inr (JObj [(''error'', JBool True), (''detail'', JStr ''CEP not found.'')])"
    using get_address_erro [of e c code msg kvs] by simp
next
  fix code msg kvs rua bairro cidade estado
  assume "requests_get e (viacep_url c) = Response code msg (JObj kvs)
        \<and> (code < 400 \<or> 600 \<le> code) \<and> ''erro'' \<notin> fst ` set kvs
        \<and> map_of kvs ''logradouro'' = Some rua \<and> map_of kvs ''bairro'' = Some bairro
        \<and> map_of kvs ''localidade'' = Some cidade \<and> map_of kvs ''uf'' = Some estado"
  then show "get_address e c =
        Inr (JObj [(''error'', JBool False),
                   (''data'', JObj [(''cep'', JStr c), (''rua'', rua), (''bairro'', bairro),
                                   (''cidade'', cidade), (''estado'', estado)])])"
    using get_address_found [of e c code msg kvs rua bairro cidade estado] by simp
next
  fix code msg kvs
  assume "requests_get e (viacep_url c) = Response code msg (JObj kvs)
        \<and> (code < 400 \<or> 600 \<le> code) \<and> ''erro'' \<notin> fst ` set kvs
        \<and> (map_of kvs ''logradouro'' = None \<or> map_of kvs ''bairro'' = None
             \<or> map_of kvs ''localidade'' = None \<or> map_of kvs ''uf'' = None)"
  then show "\<exists>k. get_address e c = Inl (KeyError k)"
    using get_address_missing_field [of e c code msg kvs] by simp
next
  fix code msg body
  assume "requests_get e (viacep_url c) = Response code msg body
        \<and> (code < 400 \<or> 600 \<le> code) \<and> (\<forall>kvs. body \<noteq> JObj kvs)"
  then show "\<exists>m. get_address e c = Inl (AttributeError m)"
    using get_address_not_object [of e c code msg body] by simp
qed

theorem get_address_tagged_results_witness:
  "get_address (example_env\<lparr>requests_get := (\<lambda>url. NoResponse ''Connection refused'')\<rparr>) ''01001000''
     = Inr (JObj [(''error'', JBool True), (''detail'', JStr ''Connection refused'')])
 \<and> get_address (example_env\<lparr>requests_get :=
         (\<lambda>url. Response 404 ''404 Client Error: Not Found'' JNull)\<rparr>) ''01001000''
     = Inr (JObj [(''error'', JBool True), (''detail'', JStr ''404 Client Error: Not Found'')])
 \<and> get_address (example_env\<lparr>requests_get :=
         (\<lambda>url. Response 200 [] (JObj [(''erro'', JBool True)]))\<rparr>) ''01001000''
     = Inr (JObj [(''error'', JBool True), (''detail'', JStr ''CEP not found.'')])
 \<and> get_address example_env ''01001000''
     = Inr (JObj [(''error'', JBool False),
                  (''data'', JObj [(''cep'', JStr ''01001000''), (''rua'', JStr ''Praca da Se''),
                                  (''bairro'', JStr ''Se''), (''cidade'', JStr ''Sao Paulo''),
                                  (''estado'', JStr ''SP'')])])
 \<and> (\<exists>k. get_address (example_env\<lparr>requests_get :=
         (\<lambda>url. Response 200 [] (JObj [(''logradouro'', JStr ''Praca da Se'')]))\<rparr>) ''01001000''
          = Inl (KeyError k))
 \<and> (\<exists>m. get_address (example_env\<lparr>requests_get := (\<lambda>url. Response 200 [] (JList []))\<rparr>)
          ''01001000'' = Inl (AttributeError m))"
proof -
  let ?e1 = "example_env\<lparr>requests_get := (\<lambda>url. NoResponse ''Connection refused'')\<rparr>"
  let ?e2 = "example_env\<lparr>requests_get :=
         (\<lambda>url. Response 404 ''404 Client Error: Not Found'' JNull)\<rparr>"
  let ?e3 = "example_env\<lparr>requests_get :=
         (\<lambda>url. Response 200 [] (JObj [(''erro'', JBool True)]))\<rparr>"
  let ?e5 = "example_env\<lparr>requests_get :=
         (\<lambda>url. Response 200 [] (JObj [(''logradouro'', JStr ''Praca da Se'')]))\<rparr>"
  let ?e6 = "example_env\<lparr>requests_get := (\<lambda>url. Response 200 [] (JList []))\<rparr>"
  have 1: "get_address ?e1 ''01001000''
     = Inr (JObj [(''error'', JBool True), (''detail'', JStr ''Connection refused'')])"
    using get_address_tagged_results [of ?e1 "''01001000''"] by simp
  have 2: "get_address ?e2 ''01001000''
     = Inr (JObj [(''error'', JBool True), (''detail'', JStr ''404 Client Error: Not Found'')])"
    using get_address_tagged_results [of ?e2 "''01001000''"] by simp
  have 3: "get_address ?e3 ''01001000''
     = Inr (JObj [(''error'', JBool True), (''detail'', JStr ''CEP not found.'')])"
    using get_address_tagged_results [of ?e3 "''01001000''"] by simp
  have reply: "requests_get example_env (viacep_url ''01001000'') =
      Response 200 []
        (JObj [(''cep'', JStr ''01001-000''), (''logradouro'', JStr ''Praca da Se''),
               (''bairro'', JStr ''Se''), (''localidade'', JStr ''Sao Paulo''),
               (''uf'', JStr ''SP'')])"
    by (simp add: example_env_def)
  have 4: "get_address example_env ''01001000''
     = Inr (JObj [(''error'', JBool False),
                  (''data'', JObj [(''cep'', JStr ''01001000''), (''rua'', JStr ''Praca da Se''),
                                  (''bairro'', JStr ''Se''), (''cidade'', JStr ''Sao Paulo''),
                                  (''estado'', JStr ''SP'')])])"
    using get_address_tagged_results [of example_env "''01001000''"] reply by simp
  have 5: "\<exists>k. get_address ?e5 ''01001000'' = Inl (KeyError k)"
    using get_address_tagged_results [of ?e5 "''01001000''"] by simp
  have 6: "\<exists>m. get_address ?e6 ''01001000'' = Inl (AttributeError m)"
    using get_address_tagged_results [of ?e6 "''01001000''"] by simp
  from 1 2 3 4 5 6 show ?thesis by blast
qed

text \<open>
  Claim C6 as stated fails: on a response with status 200 and the empty object as body,
  \<^verbatim>\<open>get_address\<close> raises \<^verbatim>\<open>KeyError\<close> for the key logradouro.
\<close>

theorem get_address_counterexample:
  "get_address (example_env\<lparr>requests_get := (\<lambda>url. Response 200 [] (JObj []))\<rparr>) ''01001000''
     = Inl (KeyError ''logradouro'')"
  by (simp add: get_address_def get_address_try_def raise_for_status_def and_then_def)

text \<open>
  Claim C9, as the code has it. On a response that passes the status check (its code is not
  a client or server error) and whose JSON body is an object with the key erro, whatever
  value the key has, \<^verbatim>\<open>get_address\<close> returns the error result with detail
  "CEP not found.": the presence of the key is tested, not its value.
\<close>

theorem erro_key_presence:
  assumes "requests_get e (viacep_url c) = Response code msg (JObj kvs)"
    and "code < 400 \<or> 600 \<le> code"
    and "''erro'' \<in> fst ` set kvs"
  shows "get_address e c = Inr (JObj [(''error'', JBool True), (''detail'', JStr ''CEP not found.'')])"
  using assms by (rule get_address_erro)

theorem erro_key_presence_witness:
  "requests_get (example_env\<lparr>requests_get :=
         (\<lambda>url. Response 200 [] (JObj [(''erro'', JBool False)]))\<rparr>) (viacep_url ''01001000'')
     = Response 200 [] (JObj [(''erro'', JBool False)])
 \<and> ''erro'' \<in> fst ` set [(''erro'', JBool False)]
 \<and> get_address (example_env\<lparr>requests_get :=
         (\<lambda>url. Response 200 [] (JObj [(''erro'', JBool False)]))\<rparr>) ''01001000''
     = Inr (JObj [(''error'', JBool True), (''detail'', JStr ''CEP not found.'')])"
proof -
  let ?e = "example_env\<lparr>requests_get :=
         (\<lambda>url. Response 200 [] (JObj [(''erro'', JBool False)]))\<rparr>"
  have reply: "requests_get ?e (viacep_url ''01001000'')
     = Response 200 [] (JObj [(''erro'', JBool False)])"
    by simp
  have status: "(200::nat) < 400 \<or> 600 \<le> (200::nat)" by simp
  have key: "''erro'' \<in> fst ` set [(''erro'', JBool False)]" by simp
  from erro_key_presence [OF reply status key] reply key show ?thesis by blast
qed

text \<open>
  Claim C9 as stated fails for a response with an error status: the status is checked before
  the body is read, so a 503 response with the key erro in its body gives the text of the
  \<^verbatim>\<open>HTTPError\<close> as detail.
\<close>

theorem erro_key_counterexample:
  "get_address (example_env\<lparr>requests_get :=
       (\<lambda>url. Response 503 ''503 Server Error: Service Unavailable'' (JObj [(''erro'', JBool True)]))\<rparr>)
     ''01001000''
   = Inr (JObj [(''error'', JBool True), (''detail'', JStr ''503 Server Error: Service Unavailable'')])
 \<and> get_address (example_env\<lparr>requests_get :=
       (\<lambda>url. Response 503 ''503 Server Error: Service Unavailable'' (JObj [(''erro'', JBool True)]))\<rparr>)
     ''01001000''
   \<noteq> Inr (JObj [(''error'', JBool True), (''detail'', JStr ''CEP not found.'')])"
  by (simp add: get_address_def get_address_try_def raise_for_status_def and_then_def)

subsection \<open>Request Dispatcher\<close>

lemma validate_unknown_action:
  assumes "map_of kvs ''action'' = Some a"
    and "a \<notin> JStr ` fst ` set input_model_mapping"
  shows "validate_input_data py (JObj kvs) = []"
  using assms
  by (simp add: validate_input_data_def List.map_filter_def input_model_mapping_def
        validate_InputGetAddress_def validate_InputSaveAddress_def
        validate_InputCheckRegistration_def validate_InputMakeOrderTech_def
        validate_InputMakeOrderPoke_def action_field_def)

text \<open>
  Claim C8, as the code has it. A body whose action field is present and is none of the five
  known actions is accepted by no input model: the request is refused with a validation
  error before \<^verbatim>\<open>api_endpoint\<close> is called. The instance \<^verbatim>\<open>api_endpoint\<close> receives has one
  of the five actions, and the result is what the operation of that action raises, or what
  it returns wrapped with the action as \<^verbatim>\<open>response_payload\<close>; neither "Invalid action"
  branch is taken.
\<close>

theorem unknown_action_rejected:
  "(\<forall>kvs a. map_of kvs ''action'' = Some a
        \<and> a \<notin> {JStr ''get_address'', JStr ''save_address'', JStr ''check_registration'',
                  JStr ''make_order_tech'', JStr ''make_order_poke''} \<longrightarrow>
        post_root py e (JObj kvs) w = (Inl RequestValidationError, w))
 \<and> action inp \<in> {''get_address'', ''save_address'', ''check_registration'',
                    ''make_order_tech'', ''make_order_poke''}
 \<and> api_endpoint e inp w =
     (case inp of
        InputGetAddress p \<Rightarrow>
          (map_sum id (response ''get_address'') (get_address e (PayloadGetAddress.cep p)), w)
      | InputSaveAddress p \<Rightarrow>
          apfst (map_sum id (response ''save_address'')) (save_address e p w)
      | InputCheckRegistration p \<Rightarrow>
          apfst (map_sum id (response ''check_registration''))
            (check_registration (PayloadCheckRegistration.rm p) w)
      | InputMakeOrderTech p \<Rightarrow>
          apfst (map_sum id (response ''make_order_tech''))
            (make_order_tech e p tech_store_sheet_name w)
      | InputMakeOrderPoke p \<Rightarrow>
          apfst (map_sum id (response ''make_order_poke''))
            (make_order_poke e p poke_store_sheet_name w))"
proof (intro conjI allI impI)
  fix kvs a
  assume "map_of kvs ''action'' = Some a
        \<and> a \<notin> {JStr ''get_address'', JStr ''save_address'', JStr ''check_registration'',
                  JStr ''make_order_tech'', JStr ''make_order_poke''}"
  then have "validate_input_data py (JObj kvs) = []"
    using validate_unknown_action [of kvs a py] by (simp add: input_model_mapping_def)
  then show "post_root py e (JObj kvs) w = (Inl RequestValidationError, w)"
    by (simp add: post_root_def pure_io_def)
next
  show "action inp \<in> {''get_address'', ''save_address'', ''check_registration'',
                    ''make_order_tech'', ''make_order_poke''}"
    by (cases inp) simp_all
next
  have wrap: "\<And>a m. respond a m w = apfst (map_sum id (response a)) (m w)"
    by (auto simp: respond_def io_bind_def pure_io_def split: prod.splits sum.splits)
  show "api_endpoint e inp w =
     (case inp of
        InputGetAddress p \<Rightarrow>
          (map_sum id (response ''get_address'') (get_address e (PayloadGetAddress.cep p)), w)
      | InputSaveAddress p \<Rightarrow>
          apfst (map_sum id (response ''save_address'')) (save_address e p w)
      | InputCheckRegistration p \<Rightarrow>
          apfst (map_sum id (response ''check_registration''))
            (check_registration (PayloadCheckRegistration.rm p) w)
      | InputMakeOrderTech p \<Rightarrow>
          apfst (map_sum id (response ''make_order_tech''))
            (make_order_tech e p tech_store_sheet_name w)
      | InputMakeOrderPoke p \<Rightarrow>
          apfst (map_sum id (response ''make_order_poke''))
            (make_order_poke e p poke_store_sheet_name w))"
    by (cases inp) (simp_all add: api_endpoint_def input_model_mapping_def wrap pure_io_def)
qed

theorem unknown_action_rejected_witness:
  "map_of [(''action'', JStr ''delete_address''), (''rm'', JStr ''12345'')] ''action''
     = Some (JStr ''delete_address'')
 \<and> post_root example_pydantic example_env
       (JObj [(''action'', JStr ''delete_address''), (''rm'', JStr ''12345'')]) example_world
     = (Inl RequestValidationError, example_world)
 \<and> action (InputCheckRegistration \<lparr>PayloadCheckRegistration.rm = ''123456''\<rparr>)
     = ''check_registration''
 \<and> api_endpoint example_env (InputCheckRegistration \<lparr>PayloadCheckRegistration.rm = ''123456''\<rparr>)
       example_world
     = (Inr (JObj [(''action'', JStr ''check_registration''),
                   (''response_payload'',
                    JObj [(''error'', JBool False), (''status'', JStr ''registered''),
                          (''detail'', JStr ''RM 123456 found in the database.''),
                          (''data'', example_record)])]),
        example_world)"
proof -
  let ?kvs = "[(''action'', JStr ''delete_address''), (''rm'', JStr ''12345'')]"
  let ?inp = "InputCheckRegistration \<lparr>PayloadCheckRegistration.rm = ''123456''\<rparr>"
  note t = unknown_action_rejected [of example_pydantic example_env example_world ?inp]
  have field: "map_of ?kvs ''action'' = Some (JStr ''delete_address'')" by simp
  have full: "map_of example_store ''123456'' = Some example_record"
    and nonnull: "example_record \<noteq> JNull"
    by (simp_all add: example_store_def example_record_def)
  have checked: "check_registration ''123456'' example_world =
       (Inr (JObj [(''error'', JBool False), (''status'', JStr ''registered''),
                   (''detail'', JStr ''RM 123456 found in the database.''),
                   (''data'', example_record)]), example_world)"
    using check_registration_dict [OF example_store_file, of "''123456''"] full nonnull by simp
  from t [THEN conjunct1, rule_format, of ?kvs "JStr ''delete_address''"]
  have 1: "post_root example_pydantic example_env (JObj ?kvs) example_world
             = (Inl RequestValidationError, example_world)"
    by simp
  have 2: "action ?inp = ''check_registration''" by simp
  from t [THEN conjunct2, THEN conjunct2] checked have 3: "api_endpoint example_env ?inp example_world
     = (Inr (JObj [(''action'', JStr ''check_registration''),
                   (''response_payload'',
                    JObj [(''error'', JBool False), (''status'', JStr ''registered''),
                          (''detail'', JStr ''RM 123456 found in the database.''),
                          (''data'', example_record)])]),
        example_world)"
    by (simp add: response_def)
  from field 1 2 3 show ?thesis by blast
qed

text \<open>
  Claim C8 as stated fails: a request with the action delete_address gets the validation
  error, not the "Invalid action" payload.
\<close>

theorem unknown_action_counterexample:
  "fst (post_root example_pydantic example_env
          (JObj [(''action'', JStr ''delete_address''), (''rm'', JStr ''12345'')]) example_world)
     = Inl RequestValidationError
 \<and> fst (post_root example_pydantic example_env
          (JObj [(''action'', JStr ''delete_address''), (''rm'', JStr ''12345'')]) example_world)
     \<noteq> Inr (JObj [(''action'', JStr ''delete_address''),
                   (''response_payload'',
                    JObj [(''error'', JBool True), (''detail'', JStr ''Invalid action'')])])"
  by (simp add: post_root_def validate_input_data_def List.map_filter_def
        validate_InputGetAddress_def validate_InputSaveAddress_def
        validate_InputCheckRegistration_def validate_InputMakeOrderTech_def
        validate_InputMakeOrderPoke_def action_field_def pure_io_def)

end
